theory Spec2Isabelle
  imports Complex_Main "HOL-Library.Log_Nat"
begin

section \<open>The page: elements, text and rows\<close>

text \<open>
  The client is a set of JavaScript modules that react to WebSocket messages and to
  clicks by mutating module-level variables and the page. The embedding threads one
  record through every function: the module variables of \<open>ws.js\<close>, \<open>market.js\<close>,
  \<open>chart.js\<close> and \<open>constants.js\<close>, and the page as a map from element ids to
  elements (\<open>document.getElementById\<close> is a lookup in that map, \<open>None\<close> is
  JavaScript's \<open>null\<close>).

  A number of a message is a finite binary64 number, given by its exact value, a
  rational \<open>x\<close> with \<open>double x\<close>. The arithmetic of the code is that of
  binary64: the exact result rounded to the nearest binary64 number, ties to even,
  with overflow to an infinity. Its results are of type \<open>jsnum\<close>.

  Text that the code builds by concatenation and template strings is a list of
  fragments; a fragment that the code obtains from a formatting method of the platform
  (\<open>toFixed(2)\<close>, \<open>toLocaleTimeString\<close>, number-to-string conversion) is kept
  symbolic.

  The code fills a table row by assigning markup to its \<open>innerHTML\<close>. Where the
  markup is made of fixed strings, numbers and the protocol's asset and side names, the
  row is kept as the cells the markup describes (\<open>Row\<close>). Where a free-text string
  of a message, a player's name or user id, is spliced into the markup, the browser
  parses that string as markup too, and the row is kept as the markup assigned
  (\<open>HtmlRow\<close>).
\<close>

datatype jsnum = Fin rat | PosInfinity | NegInfinity | NaN

datatype frag =
    S string          \<comment> \<open>a literal or a string taken from a message\<close>
  | N rat             \<comment> \<open>a number converted to a string\<close>
  | Fixed2 jsnum      \<comment> \<open>\<open>x.toFixed(2)\<close>\<close>
  | HM rat            \<comment> \<open>\<open>new Date(ts * 1000).toLocaleTimeString('en-US', hour and minute)\<close>\<close>

datatype cell = Cell (cell_class: string) (cell_text: "frag list")

datatype row =
    Row (row_background: "string option") (row_cells: "cell list")
  | HtmlRow (row_background: "string option") (innerHTML: "frag list")

record element =
  textContent :: "frag list"
  classes :: "string set"
  disabled :: bool
  val :: string
  rows :: "row list"

definition blank :: element where
  "blank = \<lparr>textContent = [], classes = {}, disabled = False, val = [], rows = []\<rparr>"

section \<open>Messages and frames\<close>

record rules =
  startingCapital :: rat
  tickSeconds :: rat
  durationSec :: rat

datatype frame =
    ORDER string string int            \<comment> \<open>asset, side, qty\<close>
  | CREATE_LOBBY string rules          \<comment> \<open>name, rules\<close>

datatype readyState = CONNECTING | OPEN | CLOSING | CLOSED

record websocket =
  readyState :: readyState
  sent :: "frame list"

record chartjs =
  ds_label :: string
  ds_data :: string                    \<comment> \<open>the key of the \<open>HISTORY\<close> array the dataset refers to\<close>
  borderColor :: string
  backgroundColor :: string

section \<open>constants.js\<close>

definition DEFAULTS :: rules where
  "DEFAULTS = \<lparr>startingCapital = 10000, tickSeconds = 2, durationSec = 15 * 60\<rparr>"

definition ASSETS :: "string list" where
  "ASSETS = [''OIL'', ''GOLD'', ''ELECTRONICS'', ''RICE'', ''PLUMBER'']"

definition MAX_POINTS :: nat where
  "MAX_POINTS = 300"

section \<open>The state of the client\<close>

record state =
  document :: "string \<rightharpoonup> element"
  clock :: string                      \<comment> \<open>what \<open>new Date().toLocaleTimeString()\<close> returns now\<close>
  ws :: "websocket option"
  userId :: "string option"
  lobbyId :: "string option"
  isHost :: bool
  previousPrices :: "string \<rightharpoonup> rat"
  priceHistory :: "string \<rightharpoonup> rat list"
  chart :: "chartjs option"
  miniChart :: bool
  chartAsset :: string
  HISTORY :: "(string \<times> rat option list) list"
  LABELS :: "string list"

text \<open>
  A statement either completes or throws (a property read on \<open>null\<close> is a
  \<open>TypeError\<close>); what it wrote to the state before throwing stays written.
\<close>

datatype outcome = Done | Threw

type_synonym stmt = "state \<Rightarrow> outcome \<times> state"

fun run :: "stmt list \<Rightarrow> stmt" where
  "run [] s = (Done, s)"
| "run (c # cs) s = (case c s of (Threw, s') \<Rightarrow> (Threw, s') | (Done, s') \<Rightarrow> run cs s')"

definition pure :: "(state \<Rightarrow> state) \<Rightarrow> stmt" where
  "pure f s = (Done, f s)"

section \<open>ui.js\<close>

definition byId :: "state \<Rightarrow> string \<Rightarrow> element option" where
  "byId s i = document s i"

text \<open>\<open>if (el) el.f = v\<close>: an update of an element that is skipped when it is absent.\<close>

definition ifPresent :: "string \<Rightarrow> (element \<Rightarrow> element) \<Rightarrow> state \<Rightarrow> state" where
  "ifPresent i f s =
     (case byId s i of None \<Rightarrow> s
      | Some el \<Rightarrow> s\<lparr>document := (document s)(i \<mapsto> f el)\<rparr>)"

text \<open>\<open>byId(i).f = v\<close>: the same update, throwing when the element is absent.\<close>

definition must :: "string \<Rightarrow> (element \<Rightarrow> element) \<Rightarrow> stmt" where
  "must i f s =
     (case byId s i of None \<Rightarrow> (Threw, s)
      | Some el \<Rightarrow> (Done, s\<lparr>document := (document s)(i \<mapsto> f el)\<rparr>))"

text \<open>\<open>el.textContent = t\<close>\<close>

definition setText :: "frag list \<Rightarrow> element \<Rightarrow> element" where
  "setText t el = el\<lparr>textContent := t\<rparr>"

text \<open>
  \<open>log(m)\<close> prepends an entry (time stamp, then the message) to the log element and
  removes entries from the end while there are more than 50.
\<close>

definition log_ui :: "frag list \<Rightarrow> state \<Rightarrow> state" where
  "log_ui m s =
     (case byId s ''log'' of None \<Rightarrow> s
      | Some el \<Rightarrow>
          let logEntry = Row None [Cell ''log-entry'' ([S ''['', S (clock s), S ''] ''] @ m)]
          in s\<lparr>document := (document s)(''log'' \<mapsto> el\<lparr>rows := take 50 (logEntry # rows el)\<rparr>)\<rparr>)"

section \<open>ws.js: outbound actions\<close>

definition ensureConnected :: "state \<Rightarrow> bool" where
  "ensureConnected s = (case ws s of None \<Rightarrow> False | Some w \<Rightarrow> readyState w = OPEN)"

definition send :: "frame \<Rightarrow> state \<Rightarrow> state" where
  "send fr s = s\<lparr>ws := map_option (\<lambda>w. w\<lparr>sent := sent w @ [fr]\<rparr>) (ws s)\<rparr>"

definition frames :: "state \<Rightarrow> frame list" where
  "frames s = (case ws s of None \<Rightarrow> [] | Some w \<Rightarrow> sent w)"

text \<open>
  \<open>handleOrder({asset, qty, side})\<close>; the quantity is the integer that the order
  buttons read with \<open>parseInt(value, 10) || 0\<close>, so \<open>!qty\<close> is \<open>qty = 0\<close>.
\<close>

definition handleOrder :: "string \<Rightarrow> int \<Rightarrow> string \<Rightarrow> state \<Rightarrow> state" where
  "handleOrder asset qty side s =
     (if \<not> ensureConnected s then log_ui [S ''Not connected.''] s
      else if qty = 0 \<or> qty \<le> 0 then log_ui [S ''Enter a positive quantity.''] s
      else send (ORDER asset side qty) s)"

definition createLobby :: stmt where
  "createLobby s =
     (if \<not> ensureConnected s then (Done, log_ui [S ''Not connected (cannot create lobby).''] s)
      else (case byId s ''name'' of None \<Rightarrow> (Threw, s)
            | Some el \<Rightarrow>
                let name = val el
                in (Done, send (CREATE_LOBBY name
                      \<lparr>startingCapital = startingCapital DEFAULTS,
                       tickSeconds = tickSeconds DEFAULTS,
                       durationSec = durationSec DEFAULTS\<rparr>) s)))"

section \<open>ui.js: screens and the player list\<close>

definition addClass :: "string \<Rightarrow> element \<Rightarrow> element" where
  "addClass c el = el\<lparr>classes := insert c (classes el)\<rparr>"

definition removeClass :: "string \<Rightarrow> element \<Rightarrow> element" where
  "removeClass c el = el\<lparr>classes := classes el - {c}\<rparr>"

text \<open>\<open>el.classList.toggle(c, force)\<close> adds the class when \<open>force\<close> holds and removes it otherwise.\<close>

definition toggleClass :: "string \<Rightarrow> bool \<Rightarrow> element \<Rightarrow> element" where
  "toggleClass c force el = (if force then addClass c el else removeClass c el)"

definition showLobbyCard :: "bool \<Rightarrow> state \<Rightarrow> state" where
  "showLobbyCard show s =
     (case byId s ''lobbyCard'' of None \<Rightarrow> s
      | Some el \<Rightarrow>
          let s1 = s\<lparr>document := (document s)(''lobbyCard'' \<mapsto> toggleClass ''hidden'' (\<not> show) el)\<rparr>
          in if show then ifPresent ''setupScreen'' (addClass ''hidden'') s1 else s1)"

definition showGameArea :: "bool \<Rightarrow> state \<Rightarrow> state" where
  "showGameArea show s =
     (case byId s ''gameArea'' of None \<Rightarrow> s
      | Some el \<Rightarrow>
          let s1 = s\<lparr>document := (document s)(''gameArea'' \<mapsto> toggleClass ''hidden'' (\<not> show) el)\<rparr>
          in if show
             then ifPresent ''lobbyCard'' (addClass ''hidden'')
                    (ifPresent ''setupScreen'' (addClass ''hidden'') s1)
             else s1)"

record player =
  player_name :: string
  player_userId :: string
  ready :: bool

text \<open>
  The white space of the row templates: a line break and six spaces in front of every
  cell, a line break and four spaces at the end; and the double quote.
\<close>

definition cellIndent :: string where
  "cellIndent = CHR 0x0A # ''      ''"

definition rowEnd :: string where
  "rowEnd = CHR 0x0A # ''    ''"

definition dq :: string where
  "dq = [CHR 0x22]"

definition playerRow :: "player \<Rightarrow> row" where
  "playerRow p = HtmlRow None
     [S (cellIndent @ ''<td>''), S (player_name p),
      S (''</td>'' @ cellIndent @ ''<td class='' @ dq @ ''muted'' @ dq @ ''>''), S (player_userId p),
      S (''</td>'' @ cellIndent @ ''<td>''),
      S (if ready p then [CHR 0xE2, CHR 0x9C, CHR 0x85] else [CHR 0xE2, CHR 0x9D, CHR 0x8C]),
      S (''</td>'' @ rowEnd)]"

text \<open>\<open>tb.innerHTML = ""\<close> followed by one \<open>appendChild\<close> per entry leaves exactly the new rows.\<close>

definition renderPlayers :: "player list option \<Rightarrow> state \<Rightarrow> state" where
  "renderPlayers list s =
     (case byId s ''playersTbody'' of None \<Rightarrow> s
      | Some tb \<Rightarrow>
          s\<lparr>document := (document s)(''playersTbody'' \<mapsto>
               tb\<lparr>rows := map playerRow (case list of None \<Rightarrow> [] | Some l \<Rightarrow> l)\<rparr>)\<rparr>)"

section \<open>JavaScript numbers\<close>

text \<open>
  The exponent of a positive rational \<open>a\<close> is the \<open>e\<close> with
  \<open>2 ^ e \<le> a < 2 ^ (e + 1)\<close>, found from the bit lengths of its numerator and
  denominator.
\<close>

definition exponent :: "rat \<Rightarrow> int" where
  "exponent a =
     (let (n, d) = quotient_of a; k = bitlen n - bitlen d
      in if 2 powi k \<le> a then k else k - 1)"

text \<open>The nearest integer, the even one of the two when they are equally near.\<close>

definition round_even :: "rat \<Rightarrow> int" where
  "round_even x =
     (let f = \<lfloor>x\<rfloor>; r = x - of_int f
      in if r < 1 / 2 then f else if r > 1 / 2 then f + 1 else if even f then f else f + 1)"

text \<open>
  Rounding to binary64: 53 significant bits, exponents from -1022 (below which the
  numbers are the multiples of \<open>2 ^ -1074\<close>) to 1023, and an infinity when the rounded
  magnitude reaches \<open>2 ^ 1024\<close>. A zero result carries a sign in binary64; the code
  compares a computed zero with zero, multiplies it and prints it with \<open>toFixed\<close>, none of
  which tells the two zeros apart, and never divides by one, so the model has one zero.
  A zero of a message is the positive one.
\<close>

definition round64 :: "rat \<Rightarrow> jsnum" where
  "round64 x =
     (if x = 0 then Fin 0
      else let a = \<bar>x\<bar>;
               e = max (exponent a) (- 1022);
               m = round_even (a * 2 powi (52 - e));
               mag = of_int m * 2 powi (e - 52)
           in if mag \<ge> 2 powi 1024 then (if x > 0 then PosInfinity else NegInfinity)
              else Fin (if x > 0 then mag else - mag))"

text \<open>The rationals that are binary64 numbers.\<close>

definition double :: "rat \<Rightarrow> bool" where
  "double x = (round64 x = Fin x)"

text \<open>\<open>a - b\<close> and \<open>a + b\<close> for two numbers of a message.\<close>

definition js_minus :: "rat \<Rightarrow> rat \<Rightarrow> jsnum" where
  "js_minus a b = round64 (a - b)"

definition js_plus :: "rat \<Rightarrow> rat \<Rightarrow> jsnum" where
  "js_plus a b = round64 (a + b)"

text \<open>
  \<open>a / b\<close> and \<open>a * b\<close> for a computed \<open>a\<close> and a number \<open>b\<close> of a message or
  of the code. A zero divisor gives an infinity, or \<open>NaN\<close> for a zero dividend; an
  infinity keeps or changes its sign with the sign of \<open>b\<close>, and times zero is \<open>NaN\<close>.
  Every comparison with \<open>NaN\<close> is false.
\<close>

fun js_div :: "jsnum \<Rightarrow> rat \<Rightarrow> jsnum" where
  "js_div (Fin x) b =
     (if b \<noteq> 0 then round64 (x / b)
      else if x > 0 then PosInfinity else if x < 0 then NegInfinity else NaN)"
| "js_div PosInfinity b = (if b \<ge> 0 then PosInfinity else NegInfinity)"
| "js_div NegInfinity b = (if b \<ge> 0 then NegInfinity else PosInfinity)"
| "js_div NaN b = NaN"

fun js_times :: "jsnum \<Rightarrow> rat \<Rightarrow> jsnum" where
  "js_times (Fin x) k = round64 (x * k)"
| "js_times PosInfinity k = (if k > 0 then PosInfinity else if k < 0 then NegInfinity else NaN)"
| "js_times NegInfinity k = (if k > 0 then NegInfinity else if k < 0 then PosInfinity else NaN)"
| "js_times NaN k = NaN"

fun js_gt0 :: "jsnum \<Rightarrow> bool" where
  "js_gt0 (Fin x) = (x > 0)"
| "js_gt0 PosInfinity = True"
| "js_gt0 NegInfinity = False"
| "js_gt0 NaN = False"

fun js_lt0 :: "jsnum \<Rightarrow> bool" where
  "js_lt0 (Fin x) = (x < 0)"
| "js_lt0 PosInfinity = False"
| "js_lt0 NegInfinity = True"
| "js_lt0 NaN = False"

fun js_ge0 :: "jsnum \<Rightarrow> bool" where
  "js_ge0 (Fin x) = (x \<ge> 0)"
| "js_ge0 PosInfinity = True"
| "js_ge0 NegInfinity = False"
| "js_ge0 NaN = False"

section \<open>market.js\<close>

text \<open>
  \<open>initMarketData\<close> and \<open>initMarket\<close> build one table row per asset; the cells of
  those rows carry ids and are looked up by id afterwards, so a row is represented by
  the elements it adds to the page. The click handlers that \<open>initMarket\<close> installs on
  the two buttons call the order callback (\<open>handleOrder\<close>) with the asset, the side
  and the parsed quantity.
\<close>

definition marketDataCells :: "string \<Rightarrow> (string \<times> element) list" where
  "marketDataCells asset =
     [(''market_row_'' @ asset, blank),
      (''mp_'' @ asset, blank\<lparr>textContent := [S ''-''], classes := {''price-cell''}\<rparr>),
      (''mchg_'' @ asset, blank\<lparr>textContent := [S ''-''], classes := {''price-change''}\<rparr>),
      (''mchgp_'' @ asset, blank\<lparr>textContent := [S ''-''], classes := {''price-change''}\<rparr>),
      (''spark_'' @ asset, blank\<lparr>classes := {''sparkline''}\<rparr>)]"

definition orderCells :: "string \<Rightarrow> (string \<times> element) list" where
  "orderCells asset =
     [(''p_'' @ asset, blank\<lparr>textContent := [S ''-''], classes := {''price-cell''}\<rparr>),
      (''q_'' @ asset, blank\<lparr>val := ''10''\<rparr>),
      (''btn_buy_'' @ asset, blank\<lparr>textContent := [S ''BUY''], classes := {''btn-buy''}\<rparr>),
      (''btn_sell_'' @ asset, blank\<lparr>textContent := [S ''SELL''], classes := {''btn-sell''}\<rparr>)]"

definition addElements :: "(string \<times> element) list \<Rightarrow> state \<Rightarrow> state" where
  "addElements es s = s\<lparr>document := fold (\<lambda>(i, el) d. d(i \<mapsto> el)) es (document s)\<rparr>"

definition initMarketData :: "state \<Rightarrow> state" where
  "initMarketData s =
     (case byId s ''market_rows'' of None \<Rightarrow> s
      | Some marketTbody \<Rightarrow> fold (\<lambda>asset. addElements (marketDataCells asset)) ASSETS s)"

definition initMarket :: "state \<Rightarrow> state" where
  "initMarket s =
     (case byId s ''rows'' of None \<Rightarrow> s
      | Some rowsTbody \<Rightarrow>
          initMarketData (fold (\<lambda>asset. addElements (orderCells asset)) ASSETS s))"

text \<open>
  The updates of the change cell, the percent cell and the row of an asset that has a
  previous price: the signed text and the class of the cell, and the flash class of the
  row (both flash classes removed, then one added by the sign of the change).
\<close>

definition showChange :: "jsnum \<Rightarrow> element \<Rightarrow> element" where
  "showChange change el =
     el\<lparr>textContent := [S (if js_ge0 change then ''+'' else []), Fixed2 change],
        classes := (if js_gt0 change then {''price-change'', ''up''}
                    else if js_lt0 change then {''price-change'', ''down''}
                    else {''price-change''})\<rparr>"

definition showChangePct :: "jsnum \<Rightarrow> element \<Rightarrow> element" where
  "showChangePct changePct el =
     el\<lparr>textContent := [S (if js_ge0 changePct then ''+'' else []), Fixed2 changePct, S ''%''],
        classes := (if js_gt0 changePct then {''price-change'', ''up''}
                    else if js_lt0 changePct then {''price-change'', ''down''}
                    else {''price-change''})\<rparr>"

definition flash :: "jsnum \<Rightarrow> element \<Rightarrow> element" where
  "flash change el =
     (let c = classes el - {''flash-green'', ''flash-red''}
      in el\<lparr>classes := (if js_gt0 change then insert ''flash-green'' c
                         else if js_lt0 change then insert ''flash-red'' c
                         else c)\<rparr>)"

text \<open>
  The body of the \<open>ASSETS.forEach\<close> of \<open>updatePrices\<close>, for one asset. A price that is
  \<open>undefined\<close> or \<open>null\<close> in the map is \<open>None\<close>. Drawing the sparkline on its canvas
  changes no state of the client.
\<close>

definition updateAsset :: "(string \<rightharpoonup> rat) \<Rightarrow> string \<Rightarrow> state \<Rightarrow> state" where
  "updateAsset priceMap asset s =
     (case priceMap asset of None \<Rightarrow> s
      | Some priceValue \<Rightarrow>
          let prevPrice = previousPrices s asset;
              s1 = ifPresent (''p_'' @ asset) (setText [Fixed2 (Fin priceValue)]) s;
              s2 = (case byId s1 (''mp_'' @ asset) of None \<Rightarrow> s1
                    | Some marketCell \<Rightarrow>
                        let s2a = ifPresent (''mp_'' @ asset) (setText [Fixed2 (Fin priceValue)]) s1
                        in (case prevPrice of
                              Some prev \<Rightarrow>
                                let change = js_minus priceValue prev;
                                    changePct = js_times (js_div change prev) 100
                                in ifPresent (''market_row_'' @ asset) (flash change)
                                     (ifPresent (''mchgp_'' @ asset) (showChangePct changePct)
                                        (ifPresent (''mchg_'' @ asset) (showChange change) s2a))
                            | None \<Rightarrow>
                                ifPresent (''mchgp_'' @ asset) (setText [S ''-''])
                                  (ifPresent (''mchg_'' @ asset) (setText [S ''-'']) s2a)));
              h = (case priceHistory s2 asset of None \<Rightarrow> [] | Some h \<Rightarrow> h) @ [priceValue];
              s3 = s2\<lparr>priceHistory := (priceHistory s2)(asset \<mapsto> (if length h > 20 then tl h else h))\<rparr>
          in s3\<lparr>previousPrices := (previousPrices s3)(asset \<mapsto> priceValue)\<rparr>)"

definition updatePrices :: "(string \<rightharpoonup> rat) option \<Rightarrow> state \<Rightarrow> state" where
  "updatePrices priceMap s =
     (case priceMap of None \<Rightarrow> s
      | Some pm \<Rightarrow> fold (updateAsset pm) ASSETS s)"

section \<open>chart.js\<close>

text \<open>
  The two Chart.js instances are sinks: the model keeps the fields of the main chart's
  dataset that the code assigns, and whether the mini chart exists. The dataset's
  \<open>data\<close> is a reference to one of the arrays of \<open>HISTORY\<close>, kept as its key.
\<close>

definition initMiniChart :: "state \<Rightarrow> state" where
  "initMiniChart s =
     (case byId s ''miniChart1'' of None \<Rightarrow> s
      | Some canvas \<Rightarrow> s\<lparr>miniChart := True\<rparr>)"

definition initChart :: "state \<Rightarrow> state" where
  "initChart s =
     (case byId s ''priceChart'' of None \<Rightarrow> s
      | Some canvas \<Rightarrow>
          initMiniChart
            (s\<lparr>chart := Some \<lparr>ds_label = chartAsset s, ds_data = chartAsset s,
                               borderColor = ''#007aff'',
                               backgroundColor = ''rgba(0, 122, 255, 0.1)''\<rparr>\<rparr>))"

text \<open>
  An entry of a history array is a number or \<open>null\<close>; \<open>>\<close> converts \<open>null\<close> to
  zero before it compares.
\<close>

definition toNumber :: "rat option \<Rightarrow> rat" where
  "toNumber v = (case v of None \<Rightarrow> 0 | Some x \<Rightarrow> x)"

definition trendColors :: "bool \<Rightarrow> chartjs \<Rightarrow> chartjs" where
  "trendColors isUpTrend c =
     c\<lparr>borderColor := (if isUpTrend then ''#00c853'' else ''#ff3b30''),
       backgroundColor := (if isUpTrend then ''rgba(0, 200, 83, 0.1)'' else ''rgba(255, 59, 48, 0.1)'')\<rparr>"

text \<open>
  \<open>updateChartAsset\<close> reads \<open>data.length\<close> of \<open>HISTORY[chartAsset]\<close>, which throws
  when the new asset is not a key of \<open>HISTORY\<close>.
\<close>

definition updateChartAsset :: "string \<Rightarrow> stmt" where
  "updateChartAsset newAsset s =
     (let s1 = s\<lparr>chartAsset := newAsset\<rparr>
      in (case chart s1 of None \<Rightarrow> (Done, s1)
          | Some c \<Rightarrow>
              (case map_of (HISTORY s1) (chartAsset s1) of None \<Rightarrow> (Threw, s1)
               | Some data \<Rightarrow>
                   let isUpTrend = (length data \<ge> 2 \<and> toNumber (data ! (length data - 1)) > toNumber (data ! 0))
                   in (Done, s1\<lparr>chart := Some (trendColors isUpTrend
                                   (c\<lparr>ds_label := chartAsset s1, ds_data := chartAsset s1\<rparr>))\<rparr>))))"

text \<open>\<open>arr.push(x); if (arr.length > MAX_POINTS) arr.shift()\<close>\<close>

definition pushShift :: "'a \<Rightarrow> 'a list \<Rightarrow> 'a list" where
  "pushShift x arr = (let arr' = arr @ [x] in if length arr' > MAX_POINTS then tl arr' else arr')"

definition pushTickToHistory :: "(string \<rightharpoonup> rat) option \<Rightarrow> stmt" where
  "pushTickToHistory prices s =
     (case prices of None \<Rightarrow> (Done, s)
      | Some pm \<Rightarrow>
          let ts = clock s;
              s1 = s\<lparr>LABELS := pushShift ts (LABELS s)\<rparr>;
              s2 = s1\<lparr>HISTORY := map (\<lambda>(asset, arr). (asset, pushShift (pm asset) arr)) (HISTORY s1)\<rparr>
          in (case chart s2 of None \<Rightarrow> (Done, s2)
              | Some c \<Rightarrow>
                  (case map_of (HISTORY s2) (chartAsset s2) of None \<Rightarrow> (Threw, s2)
                   | Some data \<Rightarrow>
                       if length data \<ge> 2
                       then let isUpTrend =
                                  (toNumber (data ! (length data - 1)) > toNumber (data ! (length data - 2)))
                            in (Done, s2\<lparr>chart := Some (trendColors isUpTrend c)\<rparr>)
                       else (Done, s2))))"

section \<open>portfolio.js and leaderboard.js\<close>

definition getPnLClass :: "rat \<Rightarrow> string" where
  "getPnLClass v =
     (if v > 0 then ''pnl-positive'' else if v < 0 then ''pnl-negative'' else ''pnl-neutral'')"

definition formatPnL :: "jsnum \<Rightarrow> frag list" where
  "formatPnL v = [S (if js_ge0 v then ''+'' else []), Fixed2 v]"

record position =
  pos_asset :: string
  pos_qty :: rat
  avg :: rat
  price :: rat
  mktValue :: rat
  pos_uPnL :: rat

record trade =
  ts :: rat
  trade_asset :: string
  side_open :: string
  trade_qty :: rat
  realized_pnl :: rat

record portfolio =
  cash :: rat
  equity :: rat
  uPnL :: rat
  realizedPnL :: rat
  positions :: "position list option"
  trades :: "trade list option"

definition positionRow :: "position \<Rightarrow> row" where
  "positionRow r =
     (let pnlPct = js_times (js_div (js_minus (price r) (avg r)) (avg r)) 100;
          pnlClass = getPnLClass (pos_uPnL r)
      in Row None
           [Cell [] [S (pos_asset r)],
            Cell [] [N (pos_qty r)],
            Cell [] [Fixed2 (Fin (avg r))],
            Cell [] [Fixed2 (Fin (price r))],
            Cell [] [Fixed2 (Fin (mktValue r))],
            Cell pnlClass (formatPnL (Fin (pos_uPnL r))),
            Cell pnlClass (formatPnL pnlPct @ [S ''%''])])"

definition tradeRow :: "trade \<Rightarrow> row" where
  "tradeRow t =
     (let realizedPnL = realized_pnl t;
          pnlClass = getPnLClass realizedPnL;
          sideClass = (if side_open t = ''BUY'' then ''pnl-positive'' else ''pnl-negative'')
      in Row None
           [Cell [] [HM (ts t)],
            Cell [] [S (trade_asset t)],
            Cell sideClass [S (side_open t)],
            Cell [] [N (trade_qty t)],
            Cell pnlClass (formatPnL (Fin realizedPnL))])"

definition renderPortfolio :: "portfolio option \<Rightarrow> state \<Rightarrow> state" where
  "renderPortfolio p' s =
     (case p' of None \<Rightarrow> s
      | Some p \<Rightarrow>
          let s1 = ifPresent ''k_cash'' (\<lambda>el. el\<lparr>textContent := [Fixed2 (Fin (cash p))]\<rparr>) s;
              s2 = ifPresent ''k_equity'' (\<lambda>el. el\<lparr>textContent := [Fixed2 (Fin (equity p))]\<rparr>) s1;
              s3 = ifPresent ''k_upnl''
                     (\<lambda>el. el\<lparr>textContent := formatPnL (Fin (uPnL p)),
                              classes := {''kpi-value'', ''pnl-value'', getPnLClass (uPnL p)}\<rparr>) s2;
              s4 = ifPresent ''k_rpnl''
                     (\<lambda>el. el\<lparr>textContent := formatPnL (Fin (realizedPnL p)),
                              classes := {''kpi-value'', ''pnl-value'', getPnLClass (realizedPnL p)}\<rparr>) s3;
              s5 = ifPresent ''k_cash_top'' (\<lambda>el. el\<lparr>textContent := [Fixed2 (Fin (cash p))]\<rparr>) s4;
              s6 = ifPresent ''k_equity_top'' (\<lambda>el. el\<lparr>textContent := [Fixed2 (Fin (equity p))]\<rparr>) s5;
              totalPnL = js_plus (uPnL p) (realizedPnL p);
              s7 = ifPresent ''k_pnl_top''
                     (\<lambda>el. el\<lparr>textContent := formatPnL totalPnL,
                              classes := {''pnl-value'', if js_ge0 totalPnL then ''positive'' else ''negative''}\<rparr>) s6
          in (case byId s7 ''pos_rows'' of None \<Rightarrow> s7
              | Some posTb \<Rightarrow>
                  let s8 = s7\<lparr>document := (document s7)(''pos_rows'' \<mapsto>
                             posTb\<lparr>rows := map positionRow
                                      (case positions p of None \<Rightarrow> [] | Some l \<Rightarrow> l)\<rparr>)\<rparr>
                  in (case byId s8 ''trades_rows'' of None \<Rightarrow> s8
                      | Some tradeTb \<Rightarrow>
                          s8\<lparr>document := (document s8)(''trades_rows'' \<mapsto>
                               tradeTb\<lparr>rows := map tradeRow
                                  (take 5 (rev (case trades p of None \<Rightarrow> [] | Some l \<Rightarrow> l)))\<rparr>)\<rparr>)))"

record lb_entry =
  lb_name :: string
  lb_equity :: rat
  lb_realizedPnL :: rat

text \<open>
  The medal prefixes are the bytes of the three string literals of the source file. The
  row of an entry is the markup of the template, with the rank display, the name, the
  formatted equity and the two formatted P&L values with their classes spliced in; the
  background is set on the row element for the first three.
\<close>

definition medal1 :: string where
  "medal1 = [CHR 0xC3, CHR 0xB0, CHR 0xC5, CHR 0xB8, CHR 0xC2, CHR 0xA5, CHR 0xE2, CHR 0x80, CHR 0xA1]"

definition medal2 :: string where
  "medal2 = [CHR 0xC3, CHR 0xB0, CHR 0xC5, CHR 0xB8, CHR 0xC2, CHR 0xA5, CHR 0xCB, CHR 0x86]"

definition medal3 :: string where
  "medal3 = [CHR 0xC3, CHR 0xB0, CHR 0xC5, CHR 0xB8, CHR 0xC2, CHR 0xA5, CHR 0xE2, CHR 0x80, CHR 0xB0]"

definition rankDisplay :: "nat \<Rightarrow> frag list" where
  "rankDisplay index =
     (if index = 0 then [S (medal1 @ '' 1'')]
      else if index = 1 then [S (medal2 @ '' 2'')]
      else if index = 2 then [S (medal3 @ '' 3'')]
      else [N (of_nat (index + 1))])"

definition leaderboardRow :: "nat \<Rightarrow> lb_entry \<Rightarrow> row" where
  "leaderboardRow index r =
     (let totalPnL = lb_realizedPnL r;
          performance = totalPnL;
          pnlClass = getPnLClass (lb_realizedPnL r);
          perfClass = getPnLClass performance
      in HtmlRow (if index < 3 then Some ''rgba(255, 149, 0, 0.1)'' else None)
           ([S (cellIndent @ ''<td><strong>'')] @ rankDisplay index @
            [S (''</strong></td>'' @ cellIndent @ ''<td><strong>''), S (lb_name r),
             S (''</strong></td>'' @ cellIndent @ ''<td>''), Fixed2 (Fin (lb_equity r)),
             S (''</td>'' @ cellIndent @ ''<td class='' @ dq), S pnlClass, S (dq @ ''>'')] @
            formatPnL (Fin (lb_realizedPnL r)) @
            [S (''</td>'' @ cellIndent @ ''<td class='' @ dq), S perfClass, S (dq @ ''><strong>'')] @
            formatPnL (Fin performance) @
            [S (''</strong></td>'' @ rowEnd)]))"

definition renderLeaderboard :: "lb_entry list option \<Rightarrow> state \<Rightarrow> state" where
  "renderLeaderboard lb_rows s =
     (case byId s ''lb_rows'' of None \<Rightarrow> s
      | Some tb \<Rightarrow>
          s\<lparr>document := (document s)(''lb_rows'' \<mapsto>
               tb\<lparr>rows := map (\<lambda>(index, r). leaderboardRow index r)
                        (enumerate 0 (case lb_rows of None \<Rightarrow> [] | Some l \<Rightarrow> l))\<rparr>)\<rparr>)"

section \<open>ws.js: the inbound message handler\<close>

record lobby_state =
  ls_lobbyId :: string
  ls_status :: string
  ls_hostId :: string
  ls_rules :: rules
  ls_players :: "player list option"

datatype msg =
    HELLO string                                   \<comment> \<open>userId\<close>
  | INVITE_CODE string                             \<comment> \<open>lobbyId\<close>
  | LOBBY_STATE lobby_state
  | GAME_STARTED
  | GAME_ENDED
  | TICK "(string \<rightharpoonup> rat) option" "rat option"   \<comment> \<open>prices, remainingSec\<close>
  | PORTFOLIO portfolio
  | LEADERBOARD "lb_entry list option"             \<comment> \<open>rows\<close>
  | ORDER_ACCEPTED string string rat rat           \<comment> \<open>side, asset, qty, price\<close>
  | ORDER_REJECT string                            \<comment> \<open>reason\<close>
  | OTHER string                                   \<comment> \<open>any other type tag\<close>

fun onmessage :: "msg \<Rightarrow> stmt" where
  "onmessage (HELLO uid) =
     run [pure (\<lambda>s. s\<lparr>userId := Some uid\<rparr>),
          must ''userIdBox'' (setText [S ''userId: '', S uid])]"
| "onmessage (INVITE_CODE lid) =
     run [pure (\<lambda>s. s\<lparr>lobbyId := Some lid\<rparr>),
          must ''inviteBox'' (setText [S ''Invite code: '', S lid])]"
| "onmessage (LOBBY_STATE m) =
     run [pure (showLobbyCard True),
          pure (\<lambda>s. s\<lparr>lobbyId := Some (ls_lobbyId m)\<rparr>),
          must ''lobbyIdTxt'' (setText [S (ls_lobbyId m)]),
          must ''lobbyStatus'' (setText [S (ls_status m)]),
          must ''hostIdTxt'' (setText [S (ls_hostId m)]),
          must ''inviteBox'' (setText [S (ls_lobbyId m)]),
          must ''ruleCap'' (setText [N (startingCapital (ls_rules m))]),
          must ''ruleTick'' (setText [N (tickSeconds (ls_rules m))]),
          must ''ruleDur'' (setText [N (durationSec (ls_rules m))]),
          pure (renderPlayers (ls_players m)),
          pure (\<lambda>s. s\<lparr>isHost := (userId s = Some (ls_hostId m))\<rparr>),
          (\<lambda>s. must ''btnStart'' (\<lambda>el. el\<lparr>disabled := \<not> (isHost s \<and> ls_status m = ''LOBBY'')\<rparr>) s)]"
| "onmessage GAME_STARTED =
     run [pure (showGameArea True),
          pure (ifPresent ''lobbyStatus'' (setText [S ''RUNNING''])),
          pure initChart,
          pure initMarket]"
| "onmessage GAME_ENDED =
     run [must ''lobbyStatus'' (setText [S ''ENDED'']),
          pure (log_ui [S ''Game ended.''])]"
| "onmessage (TICK prices remainingSec) =
     run [pure (updatePrices prices),
          must ''timeLeft'' (setText (case remainingSec of None \<Rightarrow> [S ''-''] | Some r \<Rightarrow> [N r])),
          pushTickToHistory prices]"
| "onmessage (PORTFOLIO p) = pure (renderPortfolio (Some p))"
| "onmessage (LEADERBOARD lb_rows) = pure (renderLeaderboard lb_rows)"
| "onmessage (ORDER_ACCEPTED side asset qty price') =
     pure (log_ui [S (''<span class='' @ [CHR 0x22] @ ''log-entry success'' @ [CHR 0x22] @ ''>''),
                S [CHR 0xE2, CHR 0x9C, CHR 0x93], S '' ORDER ACCEPTED: '',
                S side, S '' '', S asset, S '' x'', N qty, S '' @ '', N price', S ''</span>''])"
| "onmessage (ORDER_REJECT reason) =
     pure (log_ui [S (''<span class='' @ [CHR 0x22] @ ''log-entry error'' @ [CHR 0x22] @ ''>''),
                S [CHR 0xE2, CHR 0x9C, CHR 0x97], S '' ORDER REJECTED: '', S reason, S ''</span>''])"
| "onmessage (OTHER tag) = pure (\<lambda>s. s)"

text \<open>
  The handler is given the parsed message: a frame that is not JSON makes \<open>JSON.parse\<close>
  throw before the \<open>switch\<close>, with nothing written. A type tag the \<open>switch\<close> has
  no case for is \<open>OTHER\<close>.

  Messages are handled one at a time, in arrival order; a handler that throws leaves
  what it had written and does not stop later messages from being handled. Each event
  carries the wall-clock time at which it is handled.
\<close>

definition receive :: "string \<times> msg \<Rightarrow> state \<Rightarrow> state" where
  "receive ev s = snd (onmessage (snd ev) (s\<lparr>clock := fst ev\<rparr>))"

definition deliver :: "(string \<times> msg) list \<Rightarrow> state \<Rightarrow> state" where
  "deliver evs s = fold receive evs s"

text \<open>The module variables as the modules initialise them, on a given page.\<close>

definition initial :: "(string \<rightharpoonup> element) \<Rightarrow> string \<Rightarrow> state" where
  "initial page now =
     \<lparr>document = page, clock = now, ws = None, userId = None, lobbyId = None, isHost = False,
      previousPrices = Map.empty,
      priceHistory = map_of (map (\<lambda>asset. (asset, [])) ASSETS),
      chart = None, miniChart = False, chartAsset = ''OIL'',
      HISTORY = [(''OIL'', []), (''GOLD'', []), (''ELECTRONICS'', []), (''RICE'', []), (''PLUMBER'', [])],
      LABELS = []\<rparr>"

section \<open>Observations\<close>

subsection \<open>Screens\<close>

text \<open>
  The three screens are the elements \<open>setupScreen\<close>, \<open>lobbyCard\<close> and \<open>gameArea\<close>;
  a screen is visible when its element does not carry the class \<open>hidden\<close>.
\<close>

definition visible :: "state \<Rightarrow> string \<Rightarrow> bool" where
  "visible s i = (case byId s i of None \<Rightarrow> False | Some el \<Rightarrow> ''hidden'' \<notin> classes el)"

definition screenIds :: "string list" where
  "screenIds = [''setupScreen'', ''lobbyCard'', ''gameArea'']"

definition screens :: "state \<Rightarrow> string list" where
  "screens s = filter (visible s) screenIds"

text \<open>A statement that leaves the three screen elements as they are.\<close>

definition keeps :: "stmt \<Rightarrow> bool" where
  "keeps c = (\<forall>s i. i \<in> set screenIds \<longrightarrow> document (snd (c s)) i = document s i)"

text \<open>
  For each screen, whether its element is hidden (\<open>None\<close> when the page has no such
  element).
\<close>

definition screenState :: "state \<Rightarrow> bool option list" where
  "screenState s = map (\<lambda>i. map_option (\<lambda>el. ''hidden'' \<in> classes el) (byId s i)) screenIds"

subsection \<open>Tables and cells\<close>

definition tableRows :: "state \<Rightarrow> string \<Rightarrow> row list" where
  "tableRows s i = (case byId s i of None \<Rightarrow> [] | Some tb \<Rightarrow> rows tb)"

definition cellText :: "state \<Rightarrow> string \<Rightarrow> frag list" where
  "cellText s i = (case byId s i of None \<Rightarrow> [] | Some el \<Rightarrow> textContent el)"

definition cellClasses :: "state \<Rightarrow> string \<Rightarrow> string set" where
  "cellClasses s i = (case byId s i of None \<Rightarrow> {} | Some el \<Rightarrow> classes el)"

subsection \<open>Sparkline histories and previous prices\<close>

text \<open>\<open>priceHistory[asset] || []\<close>\<close>

definition history :: "state \<Rightarrow> string \<Rightarrow> rat list" where
  "history s asset = (case priceHistory s asset of None \<Rightarrow> [] | Some h \<Rightarrow> h)"

definition applyTicks :: "(string \<rightharpoonup> rat) option list \<Rightarrow> state \<Rightarrow> state" where
  "applyTicks pms s = fold updatePrices pms s"

text \<open>The price that the latest tick carrying one for the asset carried, if any did.\<close>

fun lastPrice :: "(string \<rightharpoonup> rat) option list \<Rightarrow> string \<Rightarrow> rat option" where
  "lastPrice [] asset = None"
| "lastPrice (pm # pms) asset =
     (case lastPrice pms asset of Some p \<Rightarrow> Some p
      | None \<Rightarrow> (case pm of None \<Rightarrow> None | Some m \<Rightarrow> m asset))"

text \<open>
  The elements that \<open>updatePrices\<close> writes for an asset, and everything it reads and
  writes for that asset.
\<close>

definition cellIds :: "string \<Rightarrow> string list" where
  "cellIds asset = [''p_'' @ asset, ''mp_'' @ asset, ''mchg_'' @ asset, ''mchgp_'' @ asset, ''market_row_'' @ asset]"

definition assetView :: "state \<Rightarrow> string \<Rightarrow> rat option \<times> rat list option \<times> element option list" where
  "assetView s asset = (previousPrices s asset, priceHistory s asset, map (document s) (cellIds asset))"

subsection \<open>Chart history\<close>

text \<open>A sequence of ticks pushed to the chart history, each at its wall-clock time.\<close>

definition pushTick :: "string \<times> (string \<rightharpoonup> rat) option \<Rightarrow> state \<Rightarrow> state" where
  "pushTick ev s = snd (pushTickToHistory (snd ev) (s\<lparr>clock := fst ev\<rparr>))"

definition pushTicks :: "(string \<times> (string \<rightharpoonup> rat) option) list \<Rightarrow> state \<Rightarrow> state" where
  "pushTicks evs s = fold pushTick evs s"

text \<open>The label sequence and every series have the same length, at most \<open>MAX_POINTS\<close>.\<close>

definition lockstep :: "state \<Rightarrow> bool" where
  "lockstep s =
     (length (LABELS s) \<le> MAX_POINTS \<and>
      list_all (\<lambda>(asset, arr). length arr = length (LABELS s)) (HISTORY s))"

section \<open>Example pages, sessions and snapshots\<close>

text \<open>
  A page that has every element the scripts look up by a fixed id; the setup screen is
  visible, the lobby card and the game area are hidden.
\<close>

definition examplePage :: "string \<rightharpoonup> element" where
  "examplePage =
     map_of ([(''setupScreen'', blank),
              (''lobbyCard'', blank\<lparr>classes := {''hidden''}\<rparr>),
              (''gameArea'', blank\<lparr>classes := {''hidden''}\<rparr>),
              (''name'', blank\<lparr>val := ''alice''\<rparr>)] @
             map (\<lambda>i. (i, blank))
               [''log'', ''userIdBox'', ''inviteBox'', ''lobbyIdTxt'', ''lobbyStatus'', ''hostIdTxt'',
                ''ruleCap'', ''ruleTick'', ''ruleDur'', ''playersTbody'', ''btnStart'', ''timeLeft'',
                ''rows'', ''market_rows'', ''priceChart'', ''miniChart1'', ''pos_rows'',
                ''trades_rows'', ''lb_rows''])"

text \<open>The initial state on that page, with the connection open and with it closed.\<close>

definition openSession :: state where
  "openSession = (initial examplePage ''12:00:00'')\<lparr>ws := Some \<lparr>readyState = OPEN, sent = []\<rparr>\<rparr>"

definition closedSession :: state where
  "closedSession = (initial examplePage ''12:00:00'')\<lparr>ws := Some \<lparr>readyState = CLOSED, sent = []\<rparr>\<rparr>"

text \<open>The open session of the user \<open>U1\<close> and of the user \<open>U2\<close>, and a lobby hosted by \<open>U1\<close>.\<close>

definition hostSession :: state where
  "hostSession = openSession\<lparr>userId := Some ''U1''\<rparr>"

definition guestSession :: state where
  "guestSession = openSession\<lparr>userId := Some ''U2''\<rparr>"

definition exampleLobby :: "string \<Rightarrow> lobby_state" where
  "exampleLobby status =
     \<lparr>ls_lobbyId = ''ABCD'', ls_status = status, ls_hostId = ''U1'', ls_rules = DEFAULTS,
      ls_players = Some [\<lparr>player_name = ''alice'', player_userId = ''U1'', ready = True\<rparr>,
                         \<lparr>player_name = ''bob'', player_userId = ''U2'', ready = False\<rparr>]\<rparr>"

text \<open>A portfolio with seven trades.\<close>

definition exampleTrade :: "rat \<Rightarrow> trade" where
  "exampleTrade k = \<lparr>ts = k, trade_asset = ''OIL'', side_open = ''BUY'', trade_qty = 1, realized_pnl = k\<rparr>"

definition examplePortfolio :: portfolio where
  "examplePortfolio =
     \<lparr>cash = 9000, equity = 10000, uPnL = 0, realizedPnL = 28,
      positions = Some [],
      trades = Some (map exampleTrade [1, 2, 3, 4, 5, 6, 7])\<rparr>"

text \<open>A leaderboard whose first player has typed the name \<open><!--\<close>.\<close>

definition markupBoard :: "lb_entry list" where
  "markupBoard =
     [\<lparr>lb_name = ''<!--'', lb_equity = 12000, lb_realizedPnL = 500\<rparr>,
      \<lparr>lb_name = ''B'', lb_equity = 9000, lb_realizedPnL = - 200\<rparr>]"

text \<open>
  The open session after the main chart has been created and one tick has been pushed;
  the open session with twenty prices in the sparkline history of \<open>OIL\<close>; the open
  session after \<open>initMarket\<close> has built the market cells.
\<close>

definition chartSession :: state where
  "chartSession = snd (pushTickToHistory (Some [''OIL'' \<mapsto> 50]) (initChart openSession))"

definition fullSession :: state where
  "fullSession =
     openSession\<lparr>priceHistory :=
       [''OIL'' \<mapsto> [1, 2, 3, 4, 5, 6, 7, 8, 9, 10, 11, 12, 13, 14, 15, 16, 17, 18, 19, 20]]\<rparr>"

definition tradingSession :: state where
  "tradingSession = initMarket openSession"

section \<open>Order submission and lobby creation\<close>

lemma frames_log: "frames (log_ui m s) = frames s"
  by (simp add: log_ui_def frames_def Let_def split: option.splits)

lemma frames_send: "ensureConnected s \<Longrightarrow> frames (send fr s) = frames s @ [fr]"
  by (auto simp add: send_def frames_def ensureConnected_def split: option.splits)

lemma document_send: "document (send fr s) = document s"
  by (simp add: send_def)

lemma session_facts:
  "ensureConnected openSession" "frames openSession = []"
  "\<not> ensureConnected closedSession" "frames closedSession = []"
  by (simp_all add: openSession_def closedSession_def ensureConnected_def frames_def initial_def)

lemma openSession_name: "byId openSession ''name'' = Some (blank\<lparr>val := ''alice''\<rparr>)"
  by (simp add: openSession_def initial_def byId_def examplePage_def)

text \<open>
  C4. An order with a quantity that is not positive, or one submitted while the
  connection is not open, sends nothing: the call is exactly the call of \<open>log\<close> (here \<open>log_ui\<close>) with
  the matching message, and the frames sent over the connection are unchanged. An order
  with a positive quantity on an open connection sends exactly one \<open>ORDER\<close> frame,
  with the asset, side and quantity submitted, and changes nothing on the page.
\<close>

theorem handleOrder_frames:
  "(\<not> ensureConnected s \<longrightarrow>
      handleOrder asset qty side s = log_ui [S ''Not connected.''] s \<and>
      frames (handleOrder asset qty side s) = frames s)
   \<and> (ensureConnected s \<and> qty \<le> 0 \<longrightarrow>
      handleOrder asset qty side s = log_ui [S ''Enter a positive quantity.''] s \<and>
      frames (handleOrder asset qty side s) = frames s)
   \<and> (ensureConnected s \<and> qty > 0 \<longrightarrow>
      handleOrder asset qty side s = send (ORDER asset side qty) s \<and>
      frames (handleOrder asset qty side s) = frames s @ [ORDER asset side qty] \<and>
      document (handleOrder asset qty side s) = document s)"
  by (auto simp add: handleOrder_def frames_log frames_send document_send)

theorem handleOrder_frames_witness:
  "frames (handleOrder ''OIL'' 10 ''BUY'' openSession) = [ORDER ''OIL'' ''BUY'' 10]
   \<and> frames (handleOrder ''OIL'' 0 ''BUY'' openSession) = []
   \<and> frames (handleOrder ''OIL'' (- 5) ''SELL'' openSession) = []
   \<and> frames (handleOrder ''OIL'' 10 ''BUY'' closedSession) = []"
  using handleOrder_frames [of openSession "''OIL''" 10 "''BUY''"]
        handleOrder_frames [of openSession "''OIL''" 0 "''BUY''"]
        handleOrder_frames [of openSession "''OIL''" "- 5" "''SELL''"]
        handleOrder_frames [of closedSession "''OIL''" 10 "''BUY''"]
  by (simp add: session_facts frames_send frames_log)

text \<open>
  C9. On an open connection (and a page that has the name input), \<open>createLobby\<close> sends
  exactly one \<open>CREATE_LOBBY\<close> frame whose rules are the defaults, starting capital
  10000, tick 2 seconds, duration 900 seconds, whatever the rest of the state is; the
  name is the value of the name input.
\<close>

theorem createLobby_rules:
  assumes "ensureConnected s" and "byId s ''name'' = Some el"
  shows "createLobby s =
           (Done, send (CREATE_LOBBY (val el)
                    \<lparr>startingCapital = 10000, tickSeconds = 2, durationSec = 900\<rparr>) s)
         \<and> frames (snd (createLobby s)) =
           frames s @ [CREATE_LOBBY (val el) \<lparr>startingCapital = 10000, tickSeconds = 2, durationSec = 900\<rparr>]"
  using assms by (simp add: createLobby_def DEFAULTS_def frames_send)

theorem createLobby_rules_witness:
  "frames (snd (createLobby openSession)) =
     [CREATE_LOBBY ''alice'' \<lparr>startingCapital = 10000, tickSeconds = 2, durationSec = 900\<rparr>]"
  using createLobby_rules [OF session_facts(1) openSession_name]
  by (simp add: session_facts frames_send)

section \<open>Portfolio and leaderboard rows\<close>

lemma document_ifPresent:
  "document (ifPresent j f s) i = (if i = j then map_option f (document s i) else document s i)"
  by (simp add: ifPresent_def byId_def split: option.splits)

lemma enumerate_rows:
  "map (\<lambda>(index, r). f index r) (enumerate 0 rs) = map (\<lambda>i. f i (rs ! i)) [0..<length rs]"
  by (rule nth_equalityI) (simp_all add: nth_enumerate_eq)

lemma openSession_tables:
  "byId openSession ''lb_rows'' \<noteq> None"
  "byId openSession ''pos_rows'' \<noteq> None"
  "byId openSession ''trades_rows'' \<noteq> None"
  by (simp_all add: openSession_def initial_def byId_def examplePage_def)

text \<open>
  C6. On a page that has the positions table and the trades table, rendering a
  portfolio snapshot whose trades list has n entries leaves in the trades table
  exactly the rows of the last min(n, 5) trades of the list, the last one first: row
  i is the row of trade n - 1 - i.
\<close>

theorem renderPortfolio_trades:
  assumes "byId s ''pos_rows'' \<noteq> None" and "byId s ''trades_rows'' \<noteq> None"
    and "trades p = Some tr"
  shows "tableRows (renderPortfolio (Some p) s) ''trades_rows'' = map tradeRow (take 5 (rev tr))
         \<and> length (tableRows (renderPortfolio (Some p) s) ''trades_rows'') = min (length tr) 5
         \<and> (\<forall>i < min (length tr) 5.
               tableRows (renderPortfolio (Some p) s) ''trades_rows'' ! i
                 = tradeRow (tr ! (length tr - 1 - i)))"
proof -
  obtain posTb tradeTb
    where el: "document s ''pos_rows'' = Some posTb" "document s ''trades_rows'' = Some tradeTb"
    using assms by (auto simp add: byId_def)
  have r: "tableRows (renderPortfolio (Some p) s) ''trades_rows'' = map tradeRow (take 5 (rev tr))"
    by (simp add: renderPortfolio_def tableRows_def Let_def byId_def document_ifPresent el assms(3))
  have n: "\<forall>i < min (length tr) 5. take 5 (rev tr) ! i = tr ! (length tr - 1 - i)"
    by (auto simp add: rev_nth)
  show ?thesis using r n by (auto simp add: min_def)
qed

theorem renderPortfolio_trades_witness:
  "tableRows (renderPortfolio (Some examplePortfolio) openSession) ''trades_rows''
     = map tradeRow (map exampleTrade [7, 6, 5, 4, 3])"
  using renderPortfolio_trades [OF openSession_tables(2) openSession_tables(3),
          of examplePortfolio "map exampleTrade [1, 2, 3, 4, 5, 6, 7]"]
  by (simp add: examplePortfolio_def)

lemma renderLeaderboard_rows:
  assumes "byId s ''lb_rows'' \<noteq> None"
  shows "tableRows (renderLeaderboard (Some rs) s) ''lb_rows''
           = map (\<lambda>i. leaderboardRow i (rs ! i)) [0..<length rs]"
  using assms
  by (auto simp add: renderLeaderboard_def tableRows_def byId_def enumerate_rows)

text \<open>
  C7. The claim is that every row of a leaderboard snapshot is rendered with its rank, a
  marker for the first three and its realized P&L classified by sign. The rows do come
  in the order of the snapshot, with rank, marker and classes computed as claimed, but
  \<open>renderLeaderboard\<close> splices the player's name into the markup of the row as it is.
  For the snapshot whose first entry has the name \<open><!--\<close> the markup assigned to the
  first row carries that name between the rank cell and the cells of the equity and the
  two P&L values, where it begins a comment that nothing in the rest of the markup ends;
  the second row is the row of the second entry.
\<close>

theorem renderLeaderboard_markup_name:
  "tableRows (renderLeaderboard (Some markupBoard) openSession) ''lb_rows''
     = [HtmlRow (Some ''rgba(255, 149, 0, 0.1)'')
          [S (cellIndent @ ''<td><strong>''), S (medal1 @ '' 1''),
           S (''</strong></td>'' @ cellIndent @ ''<td><strong>''), S ''<!--'',
           S (''</strong></td>'' @ cellIndent @ ''<td>''), Fixed2 (Fin 12000),
           S (''</td>'' @ cellIndent @ ''<td class='' @ dq), S ''pnl-positive'', S (dq @ ''>''),
           S ''+'', Fixed2 (Fin 500),
           S (''</td>'' @ cellIndent @ ''<td class='' @ dq), S ''pnl-positive'', S (dq @ ''><strong>''),
           S ''+'', Fixed2 (Fin 500),
           S (''</strong></td>'' @ rowEnd)],
        HtmlRow (Some ''rgba(255, 149, 0, 0.1)'')
          [S (cellIndent @ ''<td><strong>''), S (medal2 @ '' 2''),
           S (''</strong></td>'' @ cellIndent @ ''<td><strong>''), S ''B'',
           S (''</strong></td>'' @ cellIndent @ ''<td>''), Fixed2 (Fin 9000),
           S (''</td>'' @ cellIndent @ ''<td class='' @ dq), S ''pnl-negative'', S (dq @ ''>''),
           S [], Fixed2 (Fin (- 200)),
           S (''</td>'' @ cellIndent @ ''<td class='' @ dq), S ''pnl-negative'', S (dq @ ''><strong>''),
           S [], Fixed2 (Fin (- 200)),
           S (''</strong></td>'' @ rowEnd)]]"
  by (simp add: renderLeaderboard_rows [OF openSession_tables(1)] markupBoard_def leaderboardRow_def
        rankDisplay_def getPnLClass_def formatPnL_def upt_rec [of 0] upt_rec [of 1] upt_rec [of "Suc 0"])

section \<open>Chart history\<close>

lemma pushShift_eq:
  "pushShift x arr = (if length arr \<ge> MAX_POINTS then tl arr @ [x] else arr @ [x])"
  by (cases arr) (auto simp add: pushShift_def Let_def MAX_POINTS_def)

lemma length_pushShift:
  "length (pushShift x arr) = (if length arr \<ge> MAX_POINTS then length arr else Suc (length arr))"
  by (cases arr) (auto simp add: pushShift_def Let_def MAX_POINTS_def)

lemma LABELS_push:
  "LABELS (snd (pushTickToHistory (Some pm) s)) = pushShift (clock s) (LABELS s)"
  by (simp add: pushTickToHistory_def Let_def split: option.splits)

lemma HISTORY_push:
  "HISTORY (snd (pushTickToHistory (Some pm) s))
     = map (\<lambda>(asset, arr). (asset, pushShift (pm asset) arr)) (HISTORY s)"
  by (simp add: pushTickToHistory_def Let_def split: option.splits)

lemma lockstep_push: "lockstep s \<Longrightarrow> lockstep (snd (pushTickToHistory prices s))"
proof (cases prices)
  case None
  then show "lockstep s \<Longrightarrow> ?thesis" by (simp add: pushTickToHistory_def)
next
  case (Some pm)
  assume "lockstep s"
  then show ?thesis
    unfolding Some lockstep_def LABELS_push HISTORY_push
    by (auto simp add: length_pushShift list_all_iff)
qed

lemma lockstep_clock: "lockstep (s\<lparr>clock := t\<rparr>) = lockstep s"
  by (simp add: lockstep_def)

lemma lockstep_pushTicks: "lockstep s \<Longrightarrow> lockstep (pushTicks evs s)"
  unfolding pushTicks_def
  by (induction evs arbitrary: s) (simp_all add: pushTick_def lockstep_push lockstep_clock)

lemma lockstep_initial: "lockstep (initial page now)"
  by (simp add: lockstep_def initial_def)

text \<open>
  C8. A tick with a price map appends exactly one label and, to the series of every
  key of \<open>HISTORY\<close>, exactly one value, the price of that key or the \<open>null\<close>
  placeholder (\<open>None\<close>) when the map has none, dropping the oldest entry of a
  sequence that already holds 300. Hence a state in which the labels and every series
  have the same length, at most 300, stays so under every tick, and every state reached
  from the initial one by any sequence of ticks is such a state.
\<close>

theorem pushTickToHistory_lockstep:
  "(lockstep s \<longrightarrow> lockstep (snd (pushTickToHistory prices s)))
   \<and> LABELS (snd (pushTickToHistory (Some pm) s))
       = (if length (LABELS s) \<ge> 300 then tl (LABELS s) @ [clock s] else LABELS s @ [clock s])
   \<and> HISTORY (snd (pushTickToHistory (Some pm) s))
       = map (\<lambda>(asset, arr). (asset, if length arr \<ge> 300 then tl arr @ [pm asset] else arr @ [pm asset]))
           (HISTORY s)
   \<and> lockstep (pushTicks evs (initial page now))"
  by (simp add: lockstep_push LABELS_push HISTORY_push pushShift_eq MAX_POINTS_def
        lockstep_pushTicks lockstep_initial)

lemma openSession_chart:
  "LABELS openSession = []" "clock openSession = ''12:00:00''"
  "HISTORY openSession = [(''OIL'', []), (''GOLD'', []), (''ELECTRONICS'', []), (''RICE'', []), (''PLUMBER'', [])]"
  by (simp_all add: openSession_def initial_def)

theorem pushTickToHistory_lockstep_witness:
  "lockstep openSession
   \<and> lockstep (snd (pushTickToHistory (Some [''OIL'' \<mapsto> 50]) openSession))
   \<and> LABELS (snd (pushTickToHistory (Some [''OIL'' \<mapsto> 50]) openSession)) = [''12:00:00'']
   \<and> HISTORY (snd (pushTickToHistory (Some [''OIL'' \<mapsto> 50]) openSession))
       = [(''OIL'', [Some 50]), (''GOLD'', [None]), (''ELECTRONICS'', [None]), (''RICE'', [None]),
          (''PLUMBER'', [None])]"
proof -
  have l: "lockstep openSession"
    by (simp add: lockstep_def openSession_chart)
  show ?thesis
    using l pushTickToHistory_lockstep [of openSession "Some [''OIL'' \<mapsto> 50]" "[''OIL'' \<mapsto> 50]" "[]" Map.empty "[]"]
    by (simp add: openSession_chart)
qed

lemma chart_push:
  assumes "chart s = Some c"
    and "map_of (HISTORY (snd (pushTickToHistory (Some pm) s))) (chartAsset s) = Some data"
    and "length data \<ge> 2"
  shows "chart (snd (pushTickToHistory (Some pm) s))
           = Some (trendColors (toNumber (data ! (length data - 1)) > toNumber (data ! (length data - 2))) c)"
proof -
  have "map_of (map (\<lambda>(asset, arr). (asset, pushShift (pm asset) arr)) (HISTORY s)) (chartAsset s) = Some data"
    using assms(2) by (simp only: HISTORY_push)
  then show ?thesis
    using assms(1,3) by (simp add: pushTickToHistory_def Let_def)
qed

text \<open>
  C10. When the main chart exists and, after a tick has been pushed, the history of the
  selected symbol has at least two points, the line colour is green if the last point is
  greater than the one before it and red otherwise; so it is red when the last two points
  are equal, and it is never another (neutral) colour.
\<close>

theorem chart_trend_never_neutral:
  assumes "chart s = Some c"
    and "map_of (HISTORY (snd (pushTickToHistory (Some pm) s))) (chartAsset s) = Some data"
    and "length data \<ge> 2"
  shows "\<exists>c'. chart (snd (pushTickToHistory (Some pm) s)) = Some c'
           \<and> borderColor c' =
               (if toNumber (data ! (length data - 1)) > toNumber (data ! (length data - 2))
                then ''#00c853'' else ''#ff3b30'')
           \<and> (data ! (length data - 1) = data ! (length data - 2) \<longrightarrow> borderColor c' = ''#ff3b30'')
           \<and> (borderColor c' = ''#00c853'' \<or> borderColor c' = ''#ff3b30'')"
  using chart_push [OF assms] by (simp add: trendColors_def)

lemma chartSession_facts:
  "chart chartSession = Some \<lparr>ds_label = ''OIL'', ds_data = ''OIL'', borderColor = ''#007aff'',
                               backgroundColor = ''rgba(0, 122, 255, 0.1)''\<rparr>"
  "chartAsset chartSession = ''OIL''"
  "HISTORY chartSession = [(''OIL'', [Some 50]), (''GOLD'', [None]), (''ELECTRONICS'', [None]), (''RICE'', [None]),
          (''PLUMBER'', [None])]"
  by (simp_all add: chartSession_def pushTickToHistory_def initChart_def initMiniChart_def Let_def
       openSession_def initial_def byId_def examplePage_def pushShift_def MAX_POINTS_def)

theorem chart_trend_never_neutral_witness:
  "map_option borderColor (chart (snd (pushTickToHistory (Some [''OIL'' \<mapsto> 50]) chartSession)))
     = Some ''#ff3b30''"
proof -
  have h: "map_of (HISTORY (snd (pushTickToHistory (Some [''OIL'' \<mapsto> 50]) chartSession))) (chartAsset chartSession)
            = Some [Some 50, Some 50]"
    by (simp add: HISTORY_push chartSession_facts pushShift_def MAX_POINTS_def)
  show ?thesis
    using chart_trend_never_neutral [OF chartSession_facts(1) h] by auto
qed

section \<open>The lobby snapshot and the screens\<close>

lemma must_present:
  "document s i = Some el \<Longrightarrow> must i f s = (Done, s\<lparr>document := (document s)(i \<mapsto> f el)\<rparr>)"
  by (simp add: must_def byId_def)

lemma document_showLobbyCard:
  "i \<noteq> ''lobbyCard'' \<Longrightarrow> i \<noteq> ''setupScreen'' \<Longrightarrow> document (showLobbyCard b s) i = document s i"
  by (simp add: showLobbyCard_def Let_def byId_def document_ifPresent split: option.splits)

lemma userId_ifPresent: "userId (ifPresent j f s) = userId s"
  by (simp add: ifPresent_def split: option.splits)

lemma userId_showLobbyCard: "userId (showLobbyCard b s) = userId s"
  by (simp add: showLobbyCard_def Let_def userId_ifPresent split: option.splits)

lemma document_renderPlayers:
  "i \<noteq> ''playersTbody'' \<Longrightarrow> document (renderPlayers l s) i = document s i"
  by (simp add: renderPlayers_def split: option.splits)

lemma userId_renderPlayers: "userId (renderPlayers l s) = userId s"
  by (simp add: renderPlayers_def split: option.splits)

lemma isHost_renderPlayers: "isHost (renderPlayers l s) = isHost s"
  by (simp add: renderPlayers_def split: option.splits)

text \<open>
  C5. On a page that has the lobby elements the handler writes to, a lobby snapshot is
  handled to completion; it sets \<open>isHost\<close> to whether the local user id is the
  snapshot's host id, and it disables the start button unless \<open>isHost\<close> holds and
  the snapshot's status is \<open>LOBBY\<close>: the start action is enabled if and only if both
  hold.
\<close>

theorem lobbyState_isHost:
  assumes "\<forall>i \<in> set [''lobbyIdTxt'', ''lobbyStatus'', ''hostIdTxt'', ''inviteBox'', ''ruleCap'',
                       ''ruleTick'', ''ruleDur'', ''btnStart'']. byId s i \<noteq> None"
  shows "fst (onmessage (LOBBY_STATE m) s) = Done
         \<and> isHost (snd (onmessage (LOBBY_STATE m) s)) = (userId s = Some (ls_hostId m))
         \<and> map_option disabled (byId (snd (onmessage (LOBBY_STATE m) s)) ''btnStart'')
             = Some (\<not> (userId s = Some (ls_hostId m) \<and> ls_status m = ''LOBBY''))"
proof -
  obtain e1 e2 e3 e4 e5 e6 e7 e8 where el:
    "document s ''lobbyIdTxt'' = Some e1" "document s ''lobbyStatus'' = Some e2"
    "document s ''hostIdTxt'' = Some e3" "document s ''inviteBox'' = Some e4"
    "document s ''ruleCap'' = Some e5" "document s ''ruleTick'' = Some e6"
    "document s ''ruleDur'' = Some e7" "document s ''btnStart'' = Some e8"
    using assms by (auto simp add: byId_def)
  show ?thesis
    by (simp add: pure_def must_def byId_def el document_showLobbyCard userId_showLobbyCard
          document_renderPlayers userId_renderPlayers isHost_renderPlayers)
qed

lemma session_lobby_elements:
  "\<forall>i \<in> set [''lobbyIdTxt'', ''lobbyStatus'', ''hostIdTxt'', ''inviteBox'', ''ruleCap'',
                ''ruleTick'', ''ruleDur'', ''btnStart'']. byId hostSession i \<noteq> None"
  "\<forall>i \<in> set [''lobbyIdTxt'', ''lobbyStatus'', ''hostIdTxt'', ''inviteBox'', ''ruleCap'',
                ''ruleTick'', ''ruleDur'', ''btnStart'']. byId guestSession i \<noteq> None"
  by (simp_all add: hostSession_def guestSession_def openSession_def initial_def byId_def examplePage_def)

theorem lobbyState_isHost_witness:
  "isHost (snd (onmessage (LOBBY_STATE (exampleLobby ''LOBBY'')) hostSession))
   \<and> map_option disabled (byId (snd (onmessage (LOBBY_STATE (exampleLobby ''LOBBY'')) hostSession)) ''btnStart'')
       = Some False
   \<and> map_option disabled (byId (snd (onmessage (LOBBY_STATE (exampleLobby ''RUNNING'')) hostSession)) ''btnStart'')
       = Some True
   \<and> \<not> isHost (snd (onmessage (LOBBY_STATE (exampleLobby ''LOBBY'')) guestSession))
   \<and> map_option disabled (byId (snd (onmessage (LOBBY_STATE (exampleLobby ''LOBBY'')) guestSession)) ''btnStart'')
       = Some True"
  using lobbyState_isHost [OF session_lobby_elements(1), of "exampleLobby ''LOBBY''"]
        lobbyState_isHost [OF session_lobby_elements(1), of "exampleLobby ''RUNNING''"]
        lobbyState_isHost [OF session_lobby_elements(2), of "exampleLobby ''LOBBY''"]
  by (simp add: exampleLobby_def hostSession_def guestSession_def)

lemma keeps_pure:
  "(\<And>s i. i \<in> set screenIds \<Longrightarrow> document (f s) i = document s i) \<Longrightarrow> keeps (pure f)"
  by (simp add: keeps_def pure_def)

lemma keeps_must: "j \<notin> set screenIds \<Longrightarrow> keeps (must j f)"
  by (auto simp add: keeps_def must_def byId_def split: option.splits)

lemma keeps_run: "list_all keeps cs \<Longrightarrow> keeps (run cs)"
proof (induction cs)
  case Nil
  then show ?case by (simp add: keeps_def)
next
  case (Cons c cs)
  then have c: "keeps c" and cs: "keeps (run cs)" by simp_all
  show ?case
    unfolding keeps_def
  proof (intro allI impI)
    fix s i assume i: "i \<in> set screenIds"
    obtain r s' where r: "c s = (r, s')" by (cases "c s")
    have "document s' i = document s i"
      using c i r unfolding keeps_def by (metis snd_conv)
    moreover have "document (snd (run cs s')) i = document s' i"
      using cs i unfolding keeps_def by blast
    ultimately show "document (snd (run (c # cs) s)) i = document s i"
      using r by (cases r) simp_all
  qed
qed

lemma screens_ifPresent:
  "j \<notin> set screenIds \<Longrightarrow> i \<in> set screenIds \<Longrightarrow> document (ifPresent j f s) i = document s i"
  by (auto simp add: document_ifPresent)

lemma screens_renderPlayers:
  "i \<in> set screenIds \<Longrightarrow> document (renderPlayers l s) i = document s i"
  by (auto simp add: renderPlayers_def byId_def screenIds_def split: option.splits)

lemma screens_initChart:
  "document (initChart s) i = document s i"
  by (simp add: initChart_def initMiniChart_def split: option.splits)

lemma screens_addElements:
  "i \<notin> fst ` set es \<Longrightarrow> document (addElements es s) i = document s i"
proof -
  have "i \<notin> fst ` set es \<Longrightarrow> fold (\<lambda>(j, el) d. d(j \<mapsto> el)) es d i = d i" for d
    by (induction es arbitrary: d) (auto split: prod.splits)
  then show "i \<notin> fst ` set es \<Longrightarrow> ?thesis" by (simp add: addElements_def)
qed

lemma screens_cells:
  "i \<in> set screenIds \<Longrightarrow> i \<notin> fst ` set (marketDataCells a)"
  "i \<in> set screenIds \<Longrightarrow> i \<notin> fst ` set (orderCells a)"
  by (auto simp add: screenIds_def marketDataCells_def orderCells_def)

lemma screens_initMarket:
  assumes "i \<in> set screenIds"
  shows "document (initMarket s) i = document s i"
proof -
  have a: "document (fold (\<lambda>asset. addElements (marketDataCells asset)) as s) i = document s i" for as s
    by (induction as arbitrary: s) (simp_all add: screens_addElements screens_cells assms)
  have b: "document (fold (\<lambda>asset. addElements (orderCells asset)) as s) i = document s i" for as s
    by (induction as arbitrary: s) (simp_all add: screens_addElements screens_cells assms)
  have c: "document (initMarketData s) i = document s i" for s
    by (simp add: initMarketData_def a split: option.splits)
  show ?thesis
    by (simp add: initMarket_def b c split: option.splits)
qed

lemma document_updateAsset:
  "i \<notin> set (cellIds a) \<Longrightarrow> document (updateAsset pm a s) i = document s i"
  by (simp add: updateAsset_def Let_def byId_def document_ifPresent cellIds_def
        split: option.split)

lemma keeps_must_dep: "j \<notin> set screenIds \<Longrightarrow> keeps (\<lambda>s. must j (f s) s)"
  by (auto simp add: keeps_def must_def byId_def split: option.splits)

lemma run_head:
  assumes "keeps (run cs)" and "i \<in> set screenIds"
  shows "document (snd (run (pure f # cs) s)) i = document (f s) i"
  using assms by (simp add: pure_def keeps_def)

lemma lobby_rest:
  "keeps (run [pure (\<lambda>s. s\<lparr>lobbyId := Some (ls_lobbyId m)\<rparr>),
          must ''lobbyIdTxt'' (setText [S (ls_lobbyId m)]),
          must ''lobbyStatus'' (setText [S (ls_status m)]),
          must ''hostIdTxt'' (setText [S (ls_hostId m)]),
          must ''inviteBox'' (setText [S (ls_lobbyId m)]),
          must ''ruleCap'' (setText [N (startingCapital (ls_rules m))]),
          must ''ruleTick'' (setText [N (tickSeconds (ls_rules m))]),
          must ''ruleDur'' (setText [N (durationSec (ls_rules m))]),
          pure (renderPlayers (ls_players m)),
          pure (\<lambda>s. s\<lparr>isHost := (userId s = Some (ls_hostId m))\<rparr>),
          (\<lambda>s. must ''btnStart'' (\<lambda>el. el\<lparr>disabled := \<not> (isHost s \<and> ls_status m = ''LOBBY'')\<rparr>) s)])"
  by (auto intro!: keeps_run keeps_pure keeps_must keeps_must_dep
        simp add: screens_renderPlayers screenIds_def)

lemma started_rest:
  "keeps (run [pure (ifPresent ''lobbyStatus'' (setText [S ''RUNNING''])), pure initChart, pure initMarket])"
  by (auto intro!: keeps_run keeps_pure
        simp add: screens_initChart screens_initMarket screens_ifPresent screenIds_def)

lemma document_lobby:
  "i \<in> set screenIds \<Longrightarrow>
     document (snd (onmessage (LOBBY_STATE m) s)) i = document (showLobbyCard True s) i"
  unfolding onmessage.simps by (rule run_head [OF lobby_rest])

lemma document_started:
  "i \<in> set screenIds \<Longrightarrow>
     document (snd (onmessage GAME_STARTED s)) i = document (showGameArea True s) i"
  unfolding onmessage.simps by (rule run_head [OF started_rest])

lemma screenState_lobby:
  "screenState (receive (t, LOBBY_STATE m) s)
     = (case screenState s of
          [a, Some b, c] \<Rightarrow> [map_option (\<lambda>_. True) a, Some False, c]
        | other \<Rightarrow> other)"
  by (simp add: screenState_def receive_def byId_def document_lobby screenIds_def
        showLobbyCard_def Let_def document_ifPresent toggleClass_def addClass_def removeClass_def
        option.map_comp comp_def
        del: onmessage.simps split: option.split)

lemma screenState_started:
  "screenState (receive (t, GAME_STARTED) s)
     = (case screenState s of
          [a, b, Some c] \<Rightarrow> [map_option (\<lambda>_. True) a, map_option (\<lambda>_. True) b, Some False]
        | other \<Rightarrow> other)"
  by (simp add: screenState_def receive_def byId_def document_started screenIds_def
        showGameArea_def Let_def document_ifPresent toggleClass_def addClass_def removeClass_def
        option.map_comp comp_def
        del: onmessage.simps split: option.split)

lemma screens_screenState:
  "screens s = map fst (filter (\<lambda>p. snd p = Some False) (zip screenIds (screenState s)))"
  by (simp add: screens_def screenState_def visible_def screenIds_def split: option.splits)

lemma openSession_screens:
  "\<forall>i \<in> set screenIds. byId openSession i \<noteq> None"
  "screenState openSession = [Some False, Some True, Some True]"
  by (simp_all add: openSession_def initial_def byId_def examplePage_def screenIds_def
        screenState_def blank_def)

text \<open>
  C1. The claim is that at most one of the setup screen, the lobby card and the game area
  is visible at any time, and that only the lobby card is visible after a lobby snapshot.
  \<open>showGameArea\<close> hides the two other screens, but \<open>showLobbyCard\<close>, which the
  handler of \<open>LOBBY_STATE\<close> calls for every snapshot, hides the setup screen only and
  shows the lobby card whether or not the game area is visible. The session on the
  example page shows only the setup screen, and only the game area after
  \<open>GAME_STARTED\<close>; a lobby snapshot with status \<open>RUNNING\<close> that arrives then leaves the
  lobby card and the game area both visible.
\<close>

theorem screens_lobby_after_start:
  "screens openSession = [''setupScreen'']
   \<and> screens (deliver [(''12:00:03'', GAME_STARTED)] openSession) = [''gameArea'']
   \<and> screens (deliver [(''12:00:03'', GAME_STARTED),
                       (''12:00:04'', LOBBY_STATE (exampleLobby ''RUNNING''))] openSession)
       = [''lobbyCard'', ''gameArea'']"
proof -
  have 1: "screenState (receive (''12:00:03'', GAME_STARTED) openSession) = [Some True, Some True, Some False]"
    by (simp add: screenState_started openSession_screens)
  have 2: "screenState (receive (''12:00:04'', LOBBY_STATE (exampleLobby ''RUNNING''))
             (receive (''12:00:03'', GAME_STARTED) openSession)) = [Some True, Some False, Some False]"
    by (simp add: screenState_lobby 1)
  show ?thesis
    by (simp add: deliver_def screens_screenState 1 2 openSession_screens screenIds_def)
qed

section \<open>Binary64 arithmetic\<close>

lemma exponent_le:
  assumes "a > 0"
  shows "2 powi (exponent a) \<le> a"
proof -
  obtain n d where q: "quotient_of a = (n, d)" by (cases "quotient_of a")
  have d: "d > 0" using q quotient_of_denom_pos by blast
  have a: "a = of_int n / of_int d" using q by (rule quotient_of_div)
  have n: "n > 0" using assms a d by (simp add: zero_less_divide_iff)
  define k where "k = bitlen n - bitlen d"
  show ?thesis
  proof (cases "2 powi k \<le> a")
    case True
    then show ?thesis by (simp add: exponent_def q k_def)
  next
    case False
    have bn: "2 ^ nat (bitlen n - 1) \<le> n" using bitlen_bounds [OF n] by simp
    have bd: "d < 2 ^ nat (bitlen d)" using bitlen_bounds [OF d] by simp
    have pn: "bitlen n \<ge> 1" using n by (simp add: bitlen_alt_def)
    have pd: "bitlen d \<ge> 1" using d by (simp add: bitlen_alt_def)
    have 1: "(2::rat) powi (bitlen n - 1) \<le> of_int n"
    proof -
      have "(of_int (2 ^ nat (bitlen n - 1)) :: rat) \<le> of_int n" using bn by (simp only: of_int_le_iff)
      then show ?thesis using pn by (simp add: power_int_def)
    qed
    have 2: "(of_int d :: rat) \<le> 2 powi (bitlen d)"
    proof -
      have "(of_int d :: rat) \<le> of_int (2 ^ nat (bitlen d))" using bd by (simp only: of_int_le_iff)
      then show ?thesis using pd by (simp add: power_int_def)
    qed
    have "(2::rat) powi (k - 1) = 2 powi (bitlen n - 1) / 2 powi (bitlen d)"
      by (simp add: k_def power_int_diff)
    also have "\<dots> \<le> of_int n / of_int d"
      using 1 2 d n by (intro frac_le) simp_all
    finally have "2 powi (k - 1) \<le> a" using a by simp
    then show ?thesis using False by (simp add: exponent_def q k_def)
  qed
qed

lemma round_even_ge: "x \<ge> 1 \<Longrightarrow> round_even x \<ge> 1"
proof -
  assume "x \<ge> 1"
  then have "\<lfloor>x\<rfloor> \<ge> 1" by (simp add: le_floor_iff)
  then show ?thesis by (simp add: round_even_def Let_def)
qed

lemma round_even_nonneg: "x \<ge> 0 \<Longrightarrow> round_even x \<ge> 0"
proof -
  assume "x \<ge> 0"
  then have "\<lfloor>x\<rfloor> \<ge> 0" by simp
  then show ?thesis by (simp add: round_even_def Let_def)
qed

lemma scaled_ge_1:
  assumes "a \<ge> 2 powi (- 1074)"
  shows "a * 2 powi (52 - max (exponent a) (- 1022)) \<ge> 1"
proof -
  have "(2::rat) powi (- 1074) > 0" by simp
  then have pos: "a > 0" using assms by linarith
  show ?thesis
  proof (cases "exponent a \<ge> - 1022")
    case True
    have "1 \<le> (2::rat) powi 52" by (simp add: power_int_def)
    also have "\<dots> = 2 powi (exponent a) * 2 powi (52 - exponent a)"
      by (simp add: power_int_add [symmetric])
    also have "\<dots> \<le> a * 2 powi (52 - exponent a)"
      using exponent_le [OF pos] by (intro mult_right_mono) simp_all
    finally show ?thesis using True by (simp add: max_def)
  next
    case False
    have "1 = (2::rat) powi (- 1074) * 2 powi 1074"
      by (simp add: power_int_add [symmetric])
    also have "\<dots> \<le> a * 2 powi 1074"
      using assms by (intro mult_right_mono) simp_all
    finally show ?thesis using False by (simp add: max_def)
  qed
qed

lemma round64_pos:
  assumes "x \<ge> 2 powi (- 1074)"
  shows "js_gt0 (round64 x)"
proof -
  have "(2::rat) powi (- 1074) > 0" by simp
  then have pos: "x > 0" using assms by linarith
  have "round_even (x * 2 powi (52 - max (exponent x) (- 1022))) \<ge> 1"
    using scaled_ge_1 [OF assms] by (rule round_even_ge)
  then have "of_int (round_even (x * 2 powi (52 - max (exponent x) (- 1022))))
               * (2::rat) powi (max (exponent x) (- 1022) - 52) > 0"
    by (simp add: zero_less_mult_iff)
  then show ?thesis using pos by (simp add: round64_def Let_def)
qed

lemma round64_neg:
  assumes "x \<le> - (2 powi (- 1074))"
  shows "js_lt0 (round64 x)"
proof -
  have "(2::rat) powi (- 1074) > 0" by simp
  then have neg: "x < 0" using assms by linarith
  have a: "\<bar>x\<bar> \<ge> 2 powi (- 1074)" using assms neg by simp
  have "round_even (\<bar>x\<bar> * 2 powi (52 - max (exponent \<bar>x\<bar>) (- 1022))) \<ge> 1"
    using scaled_ge_1 [OF a] by (rule round_even_ge)
  then have "of_int (round_even (\<bar>x\<bar> * 2 powi (52 - max (exponent \<bar>x\<bar>) (- 1022))))
               * (2::rat) powi (max (exponent \<bar>x\<bar>) (- 1022) - 52) > 0"
    by (simp add: zero_less_mult_iff)
  then show ?thesis using neg by (simp add: round64_def Let_def)
qed

lemma round64_sign:
  "js_gt0 (round64 x) \<Longrightarrow> x > 0" "js_lt0 (round64 x) \<Longrightarrow> x < 0"
proof -
  have m: "of_int (round_even (\<bar>x\<bar> * 2 powi (52 - max (exponent \<bar>x\<bar>) (- 1022))))
               * (2::rat) powi (max (exponent \<bar>x\<bar>) (- 1022) - 52) \<ge> 0"
    by (intro mult_nonneg_nonneg) (simp_all add: round_even_nonneg)
  show "js_gt0 (round64 x) \<Longrightarrow> x > 0"
    using m by (cases "x = 0"; cases "x > 0") (auto simp add: round64_def Let_def split: if_splits)
  show "js_lt0 (round64 x) \<Longrightarrow> x < 0"
    using m by (cases "x = 0"; cases "x > 0") (auto simp add: round64_def Let_def split: if_splits)
qed

lemma double_grid:
  assumes "double x"
  shows "\<exists>k::int. x = of_int k * 2 powi (- 1074)"
proof (cases "x = 0")
  case True
  then show ?thesis by (intro exI [of _ 0]) simp
next
  case False
  define a where "a = \<bar>x\<bar>"
  define e where "e = max (exponent a) (- 1022)"
  define m where "m = round_even (a * 2 powi (52 - e))"
  define mag where "mag = of_int m * (2::rat) powi (e - 52)"
  have e: "e \<ge> - 1022" by (simp add: e_def)
  have r: "round64 x =
             (if mag \<ge> 2 powi 1024 then (if x > 0 then PosInfinity else NegInfinity)
              else Fin (if x > 0 then mag else - mag))"
    unfolding round64_def Let_def a_def e_def m_def mag_def by (simp only: False if_False)
  have x: "x = (if x > 0 then of_int m * 2 powi (e - 52) else - (of_int m * 2 powi (e - 52)))"
    using assms unfolding double_def r mag_def [symmetric]
    by (cases "mag \<ge> 2 powi 1024"; cases "x > 0") simp_all
  have p: "(2::rat) powi (e - 52) = of_int (2 ^ nat (e + 1022)) * 2 powi (- 1074)"
  proof -
    have "(2::rat) powi (e - 52) = 2 powi ((e + 1022) + (- 1074))"
      by (rule arg_cong [where f = "\<lambda>k. 2 powi k"]) simp
    also have "\<dots> = 2 powi (e + 1022) * 2 powi (- 1074)"
      by (rule power_int_add) simp
    also have "(2::rat) powi (e + 1022) = of_int (2 ^ nat (e + 1022))"
      using e by (simp add: power_int_def)
    finally show ?thesis .
  qed
  show ?thesis
  proof (cases "x > 0")
    case True
    then have "x = of_int (m * 2 ^ nat (e + 1022)) * 2 powi (- 1074)"
      using x p by simp
    then show ?thesis by blast
  next
    case False
    then have "x = of_int (- (m * 2 ^ nat (e + 1022))) * 2 powi (- 1074)"
      using x p by simp
    then show ?thesis by blast
  qed
qed

lemma double_minus_sign:
  assumes "double p" and "double q"
  shows "js_gt0 (js_minus p q) \<longleftrightarrow> q < p" "js_lt0 (js_minus p q) \<longleftrightarrow> p < q"
  unfolding js_minus_def
proof -
  obtain k l :: int where k: "p = of_int k * 2 powi (- 1074)" and l: "q = of_int l * 2 powi (- 1074)"
    using double_grid [OF assms(1)] double_grid [OF assms(2)] by blast
  have d: "p - q = of_int (k - l) * 2 powi (- 1074)"
    by (simp add: k l algebra_simps)
  have pw: "(2::rat) powi (- 1074) > 0" by simp
  have up: "p - q \<ge> 2 powi (- 1074)" if "q < p"
  proof -
    have "of_int (k - l) * (2::rat) powi (- 1074) > 0" using that d by simp
    then have "k - l \<ge> 1" using pw by (simp add: zero_less_mult_iff)
    then have "(of_int (k - l) :: rat) \<ge> 1" by (simp only: of_int_1_le_iff)
    then have "of_int (k - l) * (2::rat) powi (- 1074) \<ge> 1 * 2 powi (- 1074)"
      by (intro mult_right_mono) simp_all
    then show ?thesis using d by simp
  qed
  have down: "p - q \<le> - (2 powi (- 1074))" if "p < q"
  proof -
    have "of_int (k - l) * (2::rat) powi (- 1074) < 0" using that d by simp
    then have "k - l \<le> - 1" using pw by (simp add: mult_less_0_iff)
    then have "(of_int (k - l) :: rat) \<le> - 1" by (metis of_int_le_iff of_int_minus of_int_1)
    then have "of_int (k - l) * (2::rat) powi (- 1074) \<le> (- 1) * 2 powi (- 1074)"
      by (intro mult_right_mono) simp_all
    then show ?thesis using d by simp
  qed
  show "js_gt0 (round64 (p - q)) \<longleftrightarrow> q < p"
    using round64_pos [OF up] round64_sign(1) [of "p - q"] by auto
  show "js_lt0 (round64 (p - q)) \<longleftrightarrow> p < q"
    using round64_neg [OF down] round64_sign(2) [of "p - q"] by auto
qed

lemma js_times_sign:
  "js_gt0 (js_times y 100) \<Longrightarrow> js_gt0 y" "js_lt0 (js_times y 100) \<Longrightarrow> js_lt0 y"
  using round64_sign [of "x * 100" for x]
  by (cases y; fastforce)+

lemma js_div_sign:
  assumes "0 < b"
  shows "js_gt0 (js_div c b) \<Longrightarrow> js_gt0 c" "js_lt0 (js_div c b) \<Longrightarrow> js_lt0 c"
  using assms round64_sign [of "x / b" for x]
  by (cases c; fastforce simp add: zero_less_divide_iff divide_less_0_iff)+

lemma js_div_sign_neg:
  assumes "b < 0"
  shows "js_gt0 (js_div c b) \<Longrightarrow> js_lt0 c" "js_lt0 (js_div c b) \<Longrightarrow> js_gt0 c"
  using assms round64_sign [of "x / b" for x]
  by (cases c; fastforce simp add: zero_less_divide_iff divide_less_0_iff)+

section \<open>Market data\<close>

lemma previousPrices_ifPresent: "previousPrices (ifPresent j f s) = previousPrices s"
  by (simp add: ifPresent_def split: option.splits)

lemma priceHistory_ifPresent: "priceHistory (ifPresent j f s) = priceHistory s"
  by (simp add: ifPresent_def split: option.splits)

lemma previousPrices_updateAsset:
  "previousPrices (updateAsset pm a s) b =
     (if b = a then (case pm a of None \<Rightarrow> previousPrices s a | Some p \<Rightarrow> Some p)
      else previousPrices s b)"
  by (simp add: updateAsset_def Let_def previousPrices_ifPresent split: option.split)

lemma priceHistory_updateAsset:
  "priceHistory (updateAsset pm a s) b =
     (if b = a
      then (case pm a of None \<Rightarrow> priceHistory s a
            | Some p \<Rightarrow> Some (if length (history s a @ [p]) > 20 then tl (history s a @ [p])
                            else history s a @ [p]))
      else priceHistory s b)"
  by (simp add: updateAsset_def Let_def priceHistory_ifPresent history_def split: option.split)

lemma cellIds_disjoint: "a \<noteq> b \<Longrightarrow> i \<in> set (cellIds a) \<Longrightarrow> i \<notin> set (cellIds b)"
  by (auto simp add: cellIds_def)

lemma assetView_other:
  "a \<noteq> b \<Longrightarrow> assetView (updateAsset pm b s) a = assetView s a"
  by (simp add: assetView_def previousPrices_updateAsset priceHistory_updateAsset
        document_updateAsset cellIds_disjoint)

lemma assetView_fold_other:
  "a \<notin> set bs \<Longrightarrow> assetView (fold (updateAsset pm) bs s) a = assetView s a"
  by (induction bs arbitrary: s) (auto simp add: assetView_other)

lemma doc_p:
  "document (updateAsset m a s) (''p_'' @ a) =
     (case m a of None \<Rightarrow> document s (''p_'' @ a)
      | Some p \<Rightarrow> map_option (setText [Fixed2 (Fin p)]) (document s (''p_'' @ a)))"
  by (simp add: updateAsset_def Let_def byId_def document_ifPresent split: option.split)

lemma doc_mp:
  "document (updateAsset m a s) (''mp_'' @ a) =
     (case m a of None \<Rightarrow> document s (''mp_'' @ a)
      | Some p \<Rightarrow> map_option (setText [Fixed2 (Fin p)]) (document s (''mp_'' @ a)))"
  by (simp add: updateAsset_def Let_def byId_def document_ifPresent split: option.split)

lemma doc_mchg:
  "document (updateAsset m a s) (''mchg_'' @ a) =
     (case m a of None \<Rightarrow> document s (''mchg_'' @ a)
      | Some p \<Rightarrow>
          (case document s (''mp_'' @ a) of None \<Rightarrow> document s (''mchg_'' @ a)
           | Some marketCell \<Rightarrow>
               map_option (case previousPrices s a of None \<Rightarrow> setText [S ''-'']
                           | Some prev \<Rightarrow> showChange (js_minus p prev))
                 (document s (''mchg_'' @ a))))"
  by (simp add: updateAsset_def Let_def byId_def document_ifPresent previousPrices_ifPresent
        split: option.split)

lemma doc_mchgp:
  "document (updateAsset m a s) (''mchgp_'' @ a) =
     (case m a of None \<Rightarrow> document s (''mchgp_'' @ a)
      | Some p \<Rightarrow>
          (case document s (''mp_'' @ a) of None \<Rightarrow> document s (''mchgp_'' @ a)
           | Some marketCell \<Rightarrow>
               map_option (case previousPrices s a of None \<Rightarrow> setText [S ''-'']
                           | Some prev \<Rightarrow>
                               showChangePct (js_times (js_div (js_minus p prev) prev) 100))
                 (document s (''mchgp_'' @ a))))"
  by (simp add: updateAsset_def Let_def byId_def document_ifPresent previousPrices_ifPresent
        split: option.split)

lemma doc_row:
  "document (updateAsset m a s) (''market_row_'' @ a) =
     (case m a of None \<Rightarrow> document s (''market_row_'' @ a)
      | Some p \<Rightarrow>
          (case document s (''mp_'' @ a) of None \<Rightarrow> document s (''market_row_'' @ a)
           | Some marketCell \<Rightarrow>
               (case previousPrices s a of None \<Rightarrow> document s (''market_row_'' @ a)
                | Some prev \<Rightarrow>
                    map_option (flash (js_minus p prev)) (document s (''market_row_'' @ a)))))"
  by (simp add: updateAsset_def Let_def byId_def document_ifPresent previousPrices_ifPresent
        split: option.split)

lemma assetView_cong:
  assumes "assetView s a = assetView s' a"
  shows "assetView (updateAsset pm a s) a = assetView (updateAsset pm a s') a"
proof -
  have d: "document s (''p_'' @ a) = document s' (''p_'' @ a)"
    "document s (''mp_'' @ a) = document s' (''mp_'' @ a)"
    "document s (''mchg_'' @ a) = document s' (''mchg_'' @ a)"
    "document s (''mchgp_'' @ a) = document s' (''mchgp_'' @ a)"
    "document s (''market_row_'' @ a) = document s' (''market_row_'' @ a)"
    and p: "previousPrices s a = previousPrices s' a"
    and h: "priceHistory s a = priceHistory s' a"
    using assms by (simp_all add: assetView_def cellIds_def)
  show ?thesis
    unfolding assetView_def cellIds_def list.map doc_p doc_mp doc_mchg doc_mchgp doc_row
      previousPrices_updateAsset priceHistory_updateAsset history_def d p h
    by simp
qed

lemma assetView_fold:
  assumes "distinct as" and "a \<in> set as"
  shows "assetView (fold (updateAsset pm) as s) a = assetView (updateAsset pm a s) a"
  using assms
proof (induction as arbitrary: s)
  case Nil
  then show ?case by simp
next
  case (Cons b bs)
  show ?case
  proof (cases "b = a")
    case True
    then have "a \<notin> set bs" using Cons.prems by simp
    then show ?thesis using True by (simp add: assetView_fold_other)
  next
    case False
    then have "assetView (fold (updateAsset pm) bs (updateAsset pm b s)) a
                 = assetView (updateAsset pm a (updateAsset pm b s)) a"
      using Cons by simp
    also have "\<dots> = assetView (updateAsset pm a s) a"
      using False by (intro assetView_cong assetView_other) simp
    finally show ?thesis by simp
  qed
qed

lemma distinct_ASSETS: "distinct ASSETS"
  by (simp add: ASSETS_def)

lemma assetView_updatePrices:
  "a \<in> set ASSETS \<Longrightarrow> assetView (updatePrices (Some m) s) a = assetView (updateAsset m a s) a"
  by (simp add: updatePrices_def assetView_fold distinct_ASSETS)

lemma assetView_updatePrices_other:
  "a \<notin> set ASSETS \<Longrightarrow> assetView (updatePrices pm s) a = assetView s a"
  by (simp add: updatePrices_def assetView_fold_other split: option.split)

lemma assetView_parts:
  assumes "assetView s a = assetView s' a"
  shows "previousPrices s a = previousPrices s' a" "priceHistory s a = priceHistory s' a"
    "history s a = history s' a"
    "document s (''mp_'' @ a) = document s' (''mp_'' @ a)"
    "document s (''mchg_'' @ a) = document s' (''mchg_'' @ a)"
    "document s (''mchgp_'' @ a) = document s' (''mchgp_'' @ a)"
    "document s (''market_row_'' @ a) = document s' (''market_row_'' @ a)"
  using assms by (simp_all add: assetView_def cellIds_def history_def)

lemma history_updatePrices:
  "history (updatePrices pm s) a =
     (case pm of None \<Rightarrow> history s a
      | Some m \<Rightarrow>
          (case m a of None \<Rightarrow> history s a
           | Some p \<Rightarrow>
               if a \<in> set ASSETS
               then (if length (history s a) \<ge> 20 then tl (history s a) @ [p] else history s a @ [p])
               else history s a))"
proof (cases pm)
  case None
  then show ?thesis by (simp add: updatePrices_def)
next
  case (Some m)
  show ?thesis
  proof (cases "a \<in> set ASSETS")
    case True
    have "history (updatePrices (Some m) s) a = history (updateAsset m a s) a"
      by (rule assetView_parts(3) [OF assetView_updatePrices [OF True]])
    also have "\<dots> = (case m a of None \<Rightarrow> history s a
           | Some p \<Rightarrow> if length (history s a @ [p]) > 20 then tl (history s a @ [p])
                       else history s a @ [p])"
      by (simp add: history_def priceHistory_updateAsset split: option.split)
    also have "\<dots> = (case m a of None \<Rightarrow> history s a
           | Some p \<Rightarrow> if length (history s a) \<ge> 20 then tl (history s a) @ [p] else history s a @ [p])"
      by (cases "history s a") (auto split: option.split)
    finally show ?thesis using Some True by (simp split: option.split)
  next
    case False
    have "history (updatePrices pm s) a = history s a"
      by (rule assetView_parts(3) [OF assetView_updatePrices_other [OF False]])
    then show ?thesis using Some False by (simp split: option.split)
  qed
qed

lemma history_bound_step:
  assumes "\<forall>a. length (history s a) \<le> 20"
  shows "length (history (updatePrices pm s) a) \<le> 20"
proof -
  have "length (history s a) \<le> 20" using assms by blast
  then show ?thesis
    by (auto simp add: history_updatePrices split: option.split)
qed

lemma history_bound_ticks:
  "\<forall>a. length (history s a) \<le> 20 \<Longrightarrow> length (history (applyTicks pms s) a) \<le> 20"
  unfolding applyTicks_def
proof (induction pms arbitrary: s)
  case Nil
  then show ?case by simp
next
  case (Cons pm pms)
  have "\<forall>a. length (history (updatePrices pm s) a) \<le> 20"
    using history_bound_step [OF Cons.prems] by blast
  then show ?case using Cons.IH by simp
qed

lemma history_initial: "history (initial page now) a = []"
  by (simp add: history_def initial_def map_of_map_restrict restrict_map_def split: option.split)

text \<open>
  C2. A tick keeps every sparkline history at length at most 20 when every one was so
  before. For a configured asset that the tick carries a price for, the new history is the
  old one with the price appended, without its oldest entry when the old one already held
  20: the remaining entries keep their order. The history of any other symbol, and of an
  asset the tick carries no price for, is unchanged. Every history reached from the
  initial state by any sequence of ticks has length at most 20.
\<close>

theorem sparkline_history_bounded:
  "((\<forall>b. length (history s b) \<le> 20) \<longrightarrow> (\<forall>b. length (history (updatePrices pm s) b) \<le> 20))
   \<and> (a \<in> set ASSETS \<and> m a = Some p \<longrightarrow>
        history (updatePrices (Some m) s) a
          = (if length (history s a) \<ge> 20 then tl (history s a) @ [p] else history s a @ [p]))
   \<and> (a \<notin> set ASSETS \<or> m a = None \<longrightarrow> history (updatePrices (Some m) s) a = history s a)
   \<and> (\<forall>b. length (history (applyTicks pms (initial page now)) b) \<le> 20)"
proof (intro conjI impI allI)
  fix b assume "\<forall>b. length (history s b) \<le> 20"
  then show "length (history (updatePrices pm s) b) \<le> 20" by (rule history_bound_step)
next
  assume "a \<in> set ASSETS \<and> m a = Some p"
  then show "history (updatePrices (Some m) s) a
          = (if length (history s a) \<ge> 20 then tl (history s a) @ [p] else history s a @ [p])"
    by (simp add: history_updatePrices)
next
  assume "a \<notin> set ASSETS \<or> m a = None"
  then show "history (updatePrices (Some m) s) a = history s a"
    by (auto simp add: history_updatePrices split: option.split)
next
  fix b show "length (history (applyTicks pms (initial page now)) b) \<le> 20"
    by (rule history_bound_ticks) (simp add: history_initial)
qed

lemma fullSession_history:
  "history fullSession b =
     (if b = ''OIL'' then [1, 2, 3, 4, 5, 6, 7, 8, 9, 10, 11, 12, 13, 14, 15, 16, 17, 18, 19, 20] else [])"
  by (simp add: fullSession_def history_def)

theorem sparkline_history_bounded_witness:
  "history (updatePrices (Some [''OIL'' \<mapsto> 21]) fullSession) ''OIL''
     = [2, 3, 4, 5, 6, 7, 8, 9, 10, 11, 12, 13, 14, 15, 16, 17, 18, 19, 20, 21]
   \<and> length (history (updatePrices (Some [''OIL'' \<mapsto> 21]) fullSession) ''OIL'') \<le> 20
   \<and> history (updatePrices (Some [''OIL'' \<mapsto> 21]) fullSession) ''GOLD'' = []"
proof -
  have b: "\<forall>b. length (history fullSession b) \<le> 20"
    by (simp add: fullSession_history)
  have a: "''OIL'' \<in> set ASSETS \<and> [''OIL'' \<mapsto> (21::rat)] ''OIL'' = Some 21"
    by (simp add: ASSETS_def)
  have g: "''GOLD'' \<notin> set ASSETS \<or> [''OIL'' \<mapsto> (21::rat)] ''GOLD'' = None"
    by simp
  show ?thesis
    using sparkline_history_bounded [of fullSession "Some [''OIL'' \<mapsto> 21]" "''OIL''" "[''OIL'' \<mapsto> 21]" 21 "[]" Map.empty "[]"]
      sparkline_history_bounded [of fullSession "Some [''OIL'' \<mapsto> 21]" "''GOLD''" "[''OIL'' \<mapsto> 21]" 21 "[]" Map.empty "[]"]
      a b g
    by (simp add: fullSession_history)
qed

lemma previousPrices_updatePrices:
  assumes "a \<in> set ASSETS"
  shows "previousPrices (updatePrices pm s) a =
           (case pm of None \<Rightarrow> previousPrices s a
            | Some m \<Rightarrow> (case m a of None \<Rightarrow> previousPrices s a | Some p \<Rightarrow> Some p))"
proof (cases pm)
  case None
  then show ?thesis by (simp add: updatePrices_def)
next
  case (Some m)
  have "previousPrices (updatePrices (Some m) s) a = previousPrices (updateAsset m a s) a"
    by (rule assetView_parts(1) [OF assetView_updatePrices [OF assms]])
  then show ?thesis using Some by (simp add: previousPrices_updateAsset)
qed

lemma previousPrices_ticks:
  assumes "a \<in> set ASSETS"
  shows "previousPrices (applyTicks pms s) a =
           (case lastPrice pms a of None \<Rightarrow> previousPrices s a | Some p \<Rightarrow> Some p)"
  unfolding applyTicks_def
proof (induction pms arbitrary: s)
  case Nil
  then show ?case by simp
next
  case (Cons pm pms)
  show ?case
    by (simp add: Cons.IH previousPrices_updatePrices [OF assms] split: option.split)
qed

lemma cells_updatePrices:
  assumes "a \<in> set ASSETS"
  shows "document (updatePrices (Some m) s) (''mchg_'' @ a) = document (updateAsset m a s) (''mchg_'' @ a)"
    "document (updatePrices (Some m) s) (''mchgp_'' @ a) = document (updateAsset m a s) (''mchgp_'' @ a)"
    "document (updatePrices (Some m) s) (''market_row_'' @ a) = document (updateAsset m a s) (''market_row_'' @ a)"
    "document (updatePrices (Some m) s) (''mp_'' @ a) = document (updateAsset m a s) (''mp_'' @ a)"
  using assetView_parts [OF assetView_updatePrices [OF assms, of m s]] by simp_all

text \<open>
  C3. For a configured asset that the tick carries a price for, on a page that has the
  asset's market cells: when the asset has no previous price the change cell and the
  percent cell show the dash and the row is left as it is. When it has a previous price,
  the delta is the binary64 difference of the price and the previous price and the
  percentage is that delta divided by the previous price, times 100, in binary64. The
  change cell shows the signed delta and carries the class up, down or neither by the
  sign of the delta. The row carries the green flash class exactly when the delta is
  positive and the red one exactly when it is negative. For binary64 prices the delta is
  positive exactly when the price is above the previous price and negative exactly when
  it is below. The percent cell shows the signed percentage and carries a class of its
  own, up, down or neither by the sign of the percentage: for a positive previous price
  it is never marked against the delta, for a negative one it is never marked with it.
  After the tick the previous price is the tick's price, and after any sequence of ticks
  from the initial state it is the price of the latest tick that carried one, so it is
  unset exactly until the first tick that carries a price for the asset.
\<close>

theorem updatePrices_delta:
  assumes "a \<in> set ASSETS" and "m a = Some p"
    and "\<forall>i \<in> set [''mp_'' @ a, ''mchg_'' @ a, ''mchgp_'' @ a, ''market_row_'' @ a]. byId s i \<noteq> None"
  shows "(previousPrices s a = None \<longrightarrow>
            cellText (updatePrices (Some m) s) (''mchg_'' @ a) = [S ''-'']
          \<and> cellText (updatePrices (Some m) s) (''mchgp_'' @ a) = [S ''-'']
          \<and> byId (updatePrices (Some m) s) (''market_row_'' @ a) = byId s (''market_row_'' @ a))
       \<and> (\<forall>prev. previousPrices s a = Some prev \<longrightarrow>
            cellText (updatePrices (Some m) s) (''mchg_'' @ a)
              = [S (if js_ge0 (js_minus p prev) then ''+'' else []), Fixed2 (js_minus p prev)]
          \<and> cellClasses (updatePrices (Some m) s) (''mchg_'' @ a)
              = (if js_gt0 (js_minus p prev) then {''price-change'', ''up''}
                 else if js_lt0 (js_minus p prev) then {''price-change'', ''down''}
                 else {''price-change''})
          \<and> (''flash-green'' \<in> cellClasses (updatePrices (Some m) s) (''market_row_'' @ a)
                \<longleftrightarrow> js_gt0 (js_minus p prev))
          \<and> (''flash-red'' \<in> cellClasses (updatePrices (Some m) s) (''market_row_'' @ a)
                \<longleftrightarrow> js_lt0 (js_minus p prev))
          \<and> (double p \<and> double prev \<longrightarrow>
                (js_gt0 (js_minus p prev) \<longleftrightarrow> prev < p) \<and> (js_lt0 (js_minus p prev) \<longleftrightarrow> p < prev))
          \<and> cellText (updatePrices (Some m) s) (''mchgp_'' @ a)
              = [S (if js_ge0 (js_times (js_div (js_minus p prev) prev) 100) then ''+'' else []),
                 Fixed2 (js_times (js_div (js_minus p prev) prev) 100), S ''%'']
          \<and> cellClasses (updatePrices (Some m) s) (''mchgp_'' @ a)
              = (if js_gt0 (js_times (js_div (js_minus p prev) prev) 100) then {''price-change'', ''up''}
                 else if js_lt0 (js_times (js_div (js_minus p prev) prev) 100)
                 then {''price-change'', ''down''}
                 else {''price-change''})
          \<and> (0 < prev \<longrightarrow>
                (js_gt0 (js_times (js_div (js_minus p prev) prev) 100) \<longrightarrow> js_gt0 (js_minus p prev))
              \<and> (js_lt0 (js_times (js_div (js_minus p prev) prev) 100) \<longrightarrow> js_lt0 (js_minus p prev)))
          \<and> (prev < 0 \<longrightarrow>
                (js_gt0 (js_times (js_div (js_minus p prev) prev) 100) \<longrightarrow> js_lt0 (js_minus p prev))
              \<and> (js_lt0 (js_times (js_div (js_minus p prev) prev) 100) \<longrightarrow> js_gt0 (js_minus p prev))))
       \<and> previousPrices (updatePrices (Some m) s) a = Some p
       \<and> previousPrices (applyTicks pms (initial page now)) a = lastPrice pms a"
proof -
  obtain e1 e2 e3 e4 where el:
    "document s (''mp_'' @ a) = Some e1" "document s (''mchg_'' @ a) = Some e2"
    "document s (''mchgp_'' @ a) = Some e3" "document s (''market_row_'' @ a) = Some e4"
    using assms(3) by (auto simp add: byId_def)
  note c = cells_updatePrices [OF assms(1), of m s]
  have first: "cellText (updatePrices (Some m) s) (''mchg_'' @ a) = [S ''-'']
          \<and> cellText (updatePrices (Some m) s) (''mchgp_'' @ a) = [S ''-'']
          \<and> byId (updatePrices (Some m) s) (''market_row_'' @ a) = byId s (''market_row_'' @ a)"
    if "previousPrices s a = None"
    unfolding cellText_def byId_def c doc_mchg doc_mchgp doc_row assms(2) el that
    by (simp add: setText_def)
  have cells: "cellText (updatePrices (Some m) s) (''mchg_'' @ a)
              = [S (if js_ge0 (js_minus p prev) then ''+'' else []), Fixed2 (js_minus p prev)]
          \<and> cellClasses (updatePrices (Some m) s) (''mchg_'' @ a)
              = (if js_gt0 (js_minus p prev) then {''price-change'', ''up''}
                 else if js_lt0 (js_minus p prev) then {''price-change'', ''down''}
                 else {''price-change''})
          \<and> (''flash-green'' \<in> cellClasses (updatePrices (Some m) s) (''market_row_'' @ a)
                \<longleftrightarrow> js_gt0 (js_minus p prev))
          \<and> (''flash-red'' \<in> cellClasses (updatePrices (Some m) s) (''market_row_'' @ a)
                \<longleftrightarrow> js_lt0 (js_minus p prev))
          \<and> cellText (updatePrices (Some m) s) (''mchgp_'' @ a)
              = [S (if js_ge0 (js_times (js_div (js_minus p prev) prev) 100) then ''+'' else []),
                 Fixed2 (js_times (js_div (js_minus p prev) prev) 100), S ''%'']
          \<and> cellClasses (updatePrices (Some m) s) (''mchgp_'' @ a)
              = (if js_gt0 (js_times (js_div (js_minus p prev) prev) 100) then {''price-change'', ''up''}
                 else if js_lt0 (js_times (js_div (js_minus p prev) prev) 100)
                 then {''price-change'', ''down''}
                 else {''price-change''})"
    if "previousPrices s a = Some prev" for prev
  proof -
    have x: "\<not> (js_gt0 x \<and> js_lt0 x)" for x by (cases x) auto
    show ?thesis
      unfolding cellText_def cellClasses_def byId_def c doc_mchg doc_mchgp doc_row assms(2) el that
      using x [of "js_minus p prev"] by (auto simp add: showChange_def showChangePct_def flash_def Let_def)
  qed
  have sign: "(js_gt0 (js_minus p prev) \<longleftrightarrow> prev < p) \<and> (js_lt0 (js_minus p prev) \<longleftrightarrow> p < prev)"
    if "double p \<and> double prev" for prev
    using double_minus_sign [of p prev] that by blast
  have pos: "(js_gt0 (js_times (js_div (js_minus p prev) prev) 100) \<longrightarrow> js_gt0 (js_minus p prev))
              \<and> (js_lt0 (js_times (js_div (js_minus p prev) prev) 100) \<longrightarrow> js_lt0 (js_minus p prev))"
    if "0 < prev" for prev
    using js_times_sign [of "js_div (js_minus p prev) prev"] js_div_sign [OF that, of "js_minus p prev"]
    by blast
  have neg: "(js_gt0 (js_times (js_div (js_minus p prev) prev) 100) \<longrightarrow> js_lt0 (js_minus p prev))
              \<and> (js_lt0 (js_times (js_div (js_minus p prev) prev) 100) \<longrightarrow> js_gt0 (js_minus p prev))"
    if "prev < 0" for prev
    using js_times_sign [of "js_div (js_minus p prev) prev"] js_div_sign_neg [OF that, of "js_minus p prev"]
    by blast
  have prevs: "previousPrices (updatePrices (Some m) s) a = Some p"
    by (simp add: previousPrices_updatePrices [OF assms(1)] assms(2))
  have seq: "previousPrices (applyTicks pms (initial page now)) a = lastPrice pms a"
    by (simp add: previousPrices_ticks [OF assms(1)] initial_def split: option.split)
  show ?thesis
    using first cells sign pos neg prevs seq by blast
qed

lemma dom_ifPresent: "(document (ifPresent j f s) i = None) = (document s i = None)"
  by (simp add: document_ifPresent)

lemma dom_updateAsset: "(document (updateAsset m a s) i = None) = (document s i = None)"
  by (simp add: updateAsset_def Let_def dom_ifPresent split: option.split)

lemma dom_updatePrices: "(document (updatePrices pm s) i = None) = (document s i = None)"
proof -
  have "(document (fold (updateAsset m) as s) i = None) = (document s i = None)" for m as
    by (induction as arbitrary: s) (simp_all add: dom_updateAsset)
  then show ?thesis by (simp add: updatePrices_def split: option.split)
qed

lemma tradingSession_cells:
  "\<forall>i \<in> set [''mp_'' @ ''OIL'', ''mchg_'' @ ''OIL'', ''mchgp_'' @ ''OIL'', ''market_row_'' @ ''OIL''].
     byId tradingSession i \<noteq> None"
  by (simp add: tradingSession_def initMarket_def initMarketData_def addElements_def
        marketDataCells_def orderCells_def ASSETS_def byId_def openSession_def initial_def
        examplePage_def)

lemma previousPrices_initMarket: "previousPrices (initMarket s) = previousPrices s"
proof -
  have a: "previousPrices (fold (\<lambda>asset. addElements (f asset)) as s) = previousPrices s"
    for f :: "string \<Rightarrow> (string \<times> element) list" and as s
    by (induction as arbitrary: s) (simp_all add: addElements_def)
  show ?thesis
    by (simp add: initMarket_def initMarketData_def a split: option.split)
qed

lemma tradingSession_previous: "previousPrices tradingSession ''OIL'' = None"
  by (simp add: tradingSession_def previousPrices_initMarket openSession_def initial_def)

text \<open>
  The binary64 number nearest to 8.01 is \<open>4509229126904709 / 562949953421312\<close>. From 8
  to it, the percentage of the code is \<open>140737488355325 / 1125899906842624\<close>, a little
  below 1/8. From -50 to -45 the delta is 5 and the percentage is -10.
\<close>

lemma double_8: "double 8"
  by code_simp

lemma double_801: "double (4509229126904709 / 562949953421312)"
  by code_simp

lemma minus_801: "js_minus (4509229126904709 / 562949953421312) 8 = Fin (5629499534213 / 562949953421312)"
  by code_simp

lemma percent_801:
  "js_times (js_div (Fin (5629499534213 / 562949953421312)) 8) 100
     = Fin (140737488355325 / 1125899906842624)"
  by code_simp

lemma minus_45: "js_minus (- 45) (- 50) = Fin 5"
  by code_simp

lemma percent_45: "js_times (js_div (Fin 5) (- 50)) 100 = Fin (- 10)"
  by code_simp

theorem updatePrices_delta_witness:
  "cellText (updatePrices (Some [''OIL'' \<mapsto> 8]) tradingSession) ''mchg_OIL'' = [S ''-'']
   \<and> cellText (updatePrices (Some [''OIL'' \<mapsto> 4509229126904709 / 562949953421312])
                (updatePrices (Some [''OIL'' \<mapsto> 8]) tradingSession)) ''mchg_OIL''
       = [S ''+'', Fixed2 (Fin (5629499534213 / 562949953421312))]
   \<and> cellClasses (updatePrices (Some [''OIL'' \<mapsto> 4509229126904709 / 562949953421312])
                (updatePrices (Some [''OIL'' \<mapsto> 8]) tradingSession)) ''mchg_OIL''
       = {''price-change'', ''up''}
   \<and> cellText (updatePrices (Some [''OIL'' \<mapsto> 4509229126904709 / 562949953421312])
                (updatePrices (Some [''OIL'' \<mapsto> 8]) tradingSession)) ''mchgp_OIL''
       = [S ''+'', Fixed2 (Fin (140737488355325 / 1125899906842624)), S ''%'']
   \<and> ''flash-green'' \<in> cellClasses
        (updatePrices (Some [''OIL'' \<mapsto> 4509229126904709 / 562949953421312])
           (updatePrices (Some [''OIL'' \<mapsto> 8]) tradingSession)) ''market_row_OIL''
   \<and> double 8 \<and> double (4509229126904709 / 562949953421312)
   \<and> cellClasses (updatePrices (Some [''OIL'' \<mapsto> - 45])
                (updatePrices (Some [''OIL'' \<mapsto> - 50]) tradingSession)) ''mchg_OIL''
       = {''price-change'', ''up''}
   \<and> cellText (updatePrices (Some [''OIL'' \<mapsto> - 45])
                (updatePrices (Some [''OIL'' \<mapsto> - 50]) tradingSession)) ''mchgp_OIL''
       = [S [], Fixed2 (Fin (- 10)), S ''%'']
   \<and> cellClasses (updatePrices (Some [''OIL'' \<mapsto> - 45])
                (updatePrices (Some [''OIL'' \<mapsto> - 50]) tradingSession)) ''mchgp_OIL''
       = {''price-change'', ''down''}"
proof -
  have a: "''OIL'' \<in> set ASSETS" by (simp add: ASSETS_def)
  have m: "[''OIL'' \<mapsto> v] ''OIL'' = Some v" for v :: rat
    by simp
  have c: "\<forall>i \<in> set [''mp_'' @ ''OIL'', ''mchg_'' @ ''OIL'', ''mchgp_'' @ ''OIL'', ''market_row_'' @ ''OIL''].
              byId (updatePrices (Some [''OIL'' \<mapsto> v]) tradingSession) i \<noteq> None" for v
    using tradingSession_cells by (simp add: byId_def dom_updatePrices)
  note t1 = updatePrices_delta [where a = "''OIL''" and m = "[''OIL'' \<mapsto> 8]" and p = 8
      and s = tradingSession and pms = "[]" and page = Map.empty and now = "[]",
      OF a m tradingSession_cells]
  note t2 = updatePrices_delta [where a = "''OIL''"
      and m = "[''OIL'' \<mapsto> 4509229126904709 / 562949953421312]"
      and p = "4509229126904709 / 562949953421312"
      and s = "updatePrices (Some [''OIL'' \<mapsto> 8]) tradingSession"
      and pms = "[]" and page = Map.empty and now = "[]", OF a m c]
  note t3 = updatePrices_delta [where a = "''OIL''" and m = "[''OIL'' \<mapsto> - 50]" and p = "- 50"
      and s = tradingSession and pms = "[]" and page = Map.empty and now = "[]",
      OF a m tradingSession_cells]
  note t4 = updatePrices_delta [where a = "''OIL''" and m = "[''OIL'' \<mapsto> - 45]" and p = "- 45"
      and s = "updatePrices (Some [''OIL'' \<mapsto> - 50]) tradingSession"
      and pms = "[]" and page = Map.empty and now = "[]", OF a m c]
  have p1: "previousPrices (updatePrices (Some [''OIL'' \<mapsto> 8]) tradingSession) ''OIL'' = Some 8"
    using t1 by blast
  have p3: "previousPrices (updatePrices (Some [''OIL'' \<mapsto> - 50]) tradingSession) ''OIL'' = Some (- 50)"
    using t3 by blast
  have 1: "cellText (updatePrices (Some [''OIL'' \<mapsto> 8]) tradingSession) ''mchg_OIL'' = [S ''-'']"
    using t1 tradingSession_previous by simp
  have 2: "cellText (updatePrices (Some [''OIL'' \<mapsto> 4509229126904709 / 562949953421312])
                (updatePrices (Some [''OIL'' \<mapsto> 8]) tradingSession)) ''mchg_OIL''
       = [S ''+'', Fixed2 (Fin (5629499534213 / 562949953421312))]
   \<and> cellClasses (updatePrices (Some [''OIL'' \<mapsto> 4509229126904709 / 562949953421312])
                (updatePrices (Some [''OIL'' \<mapsto> 8]) tradingSession)) ''mchg_OIL''
       = {''price-change'', ''up''}
   \<and> cellText (updatePrices (Some [''OIL'' \<mapsto> 4509229126904709 / 562949953421312])
                (updatePrices (Some [''OIL'' \<mapsto> 8]) tradingSession)) ''mchgp_OIL''
       = [S ''+'', Fixed2 (Fin (140737488355325 / 1125899906842624)), S ''%'']
   \<and> ''flash-green'' \<in> cellClasses
        (updatePrices (Some [''OIL'' \<mapsto> 4509229126904709 / 562949953421312])
           (updatePrices (Some [''OIL'' \<mapsto> 8]) tradingSession)) ''market_row_OIL''"
    using t2 [THEN conjunct2, THEN conjunct1, rule_format, OF p1]
    unfolding minus_801 percent_801 by simp
  have 3: "cellClasses (updatePrices (Some [''OIL'' \<mapsto> - 45])
                (updatePrices (Some [''OIL'' \<mapsto> - 50]) tradingSession)) ''mchg_OIL''
       = {''price-change'', ''up''}
   \<and> cellText (updatePrices (Some [''OIL'' \<mapsto> - 45])
                (updatePrices (Some [''OIL'' \<mapsto> - 50]) tradingSession)) ''mchgp_OIL''
       = [S [], Fixed2 (Fin (- 10)), S ''%'']
   \<and> cellClasses (updatePrices (Some [''OIL'' \<mapsto> - 45])
                (updatePrices (Some [''OIL'' \<mapsto> - 50]) tradingSession)) ''mchgp_OIL''
       = {''price-change'', ''down''}"
    using t4 [THEN conjunct2, THEN conjunct1, rule_format, OF p3]
    unfolding minus_45 percent_45 by simp
  show ?thesis
    using 1 2 3 double_8 double_801 by blast
qed

end
